theory Spec2Isabelle
  imports Complex_Main
begin

section \<open>Conventions shared by all pipelines\<close>

text \<open>
  Every Python exception that the modelled code can raise is a value; a function that can
  raise returns \<open>py_error + 'a\<close> with \<open>Inl\<close> for the exception.
\<close>

datatype py_error =
  ValueError | IndexError | KeyError | TypeError | AttributeError | DbfError | OverflowError

text \<open>
  The outside world as far as the HTTP pipelines touch it: one trace of events, oldest
  first. An event is a live HTTP request (URL and body) or a call of \<open>time.sleep\<close> with
  its argument in seconds. \<open>requests\<close> and \<open>sleeps\<close> read the two kinds of event off the
  trace.
\<close>

datatype 'b event = Request string 'b | Sleep int

type_synonym 'b net = "'b event list"

fun requests :: "'b net \<Rightarrow> (string \<times> 'b) list" where
  "requests [] = []"
| "requests (Request url body # w) = (url, body) # requests w"
| "requests (Sleep d # w) = requests w"

fun sleeps :: "'b net \<Rightarrow> int list" where
  "sleeps [] = []"
| "sleeps (Request url body # w) = sleeps w"
| "sleeps (Sleep d # w) = d # sleeps w"

text \<open>Non-ASCII literals of the source, as their UTF-8 bytes.\<close>

definition col_Artikul :: string where
  "col_Artikul = [CHR 0xD0, CHR 0x90, CHR 0xD1, CHR 0x80, CHR 0xD1, CHR 0x82, CHR 0xD0, CHR 0xB8,
     CHR 0xD0, CHR 0xBA, CHR 0xD1, CHR 0x83, CHR 0xD0, CHR 0xBB]"

definition col_Kolichestvo :: string where
  "col_Kolichestvo = [CHR 0xD0, CHR 0x9A, CHR 0xD0, CHR 0xBE, CHR 0xD0, CHR 0xBB, CHR 0xD0, CHR 0xB8,
     CHR 0xD1, CHR 0x87, CHR 0xD0, CHR 0xB5, CHR 0xD1, CHR 0x81, CHR 0xD1, CHR 0x82, CHR 0xD0, CHR 0xB2,
     CHR 0xD0, CHR 0xBE]"

definition testovyj_otvet :: string where
  "testovyj_otvet = [CHR 0xD0, CHR 0xA2, CHR 0xD0, CHR 0xB5, CHR 0xD1, CHR 0x81, CHR 0xD1, CHR 0x82,
     CHR 0xD0, CHR 0xBE, CHR 0xD0, CHR 0xB2, CHR 0xD1, CHR 0x8B, CHR 0xD0, CHR 0xB9, CHR 0x20, CHR 0xD0,
     CHR 0xBE, CHR 0xD1, CHR 0x82, CHR 0xD0, CHR 0xB2, CHR 0xD0, CHR 0xB5, CHR 0xD1, CHR 0x82]"

text \<open>Python's slice \<open>xs[i:j]\<close> for \<open>0 \<le> i \<le> j\<close>.\<close>

definition slice :: "'a list \<Rightarrow> nat \<Rightarrow> nat \<Rightarrow> 'a list" where
  "slice xs i j = take (j - i) (drop i xs)"

section \<open>The stand-in response of the stock and price pipelines\<close>

text \<open>
  \<open>stocks.py\<close> and \<open>prices.py\<close> each declare the same class \<open>FakeResponse\<close>. A JSON
  object is an association list; \<open>json_data or {...}\<close> takes the default for \<open>None\<close> and for
  the empty (falsy) dictionary.
\<close>

type_synonym dict = "(string \<times> string) list"

record fake_response =
  status_code :: int
  json_body :: dict
  text_body :: string
  resp_headers :: "(string \<times> int) list"

definition FakeResponse :: "int \<Rightarrow> dict option \<Rightarrow> fake_response" where
  "FakeResponse code json_data =
     \<lparr>status_code = code,
      json_body = (case json_data of
                     None \<Rightarrow> [(''message'', testovyj_otvet)]
                   | Some d \<Rightarrow> if d = [] then [(''message'', testovyj_otvet)] else d),
      text_body = testovyj_otvet,
      resp_headers = [(''Retry-After'', 7)]\<rparr>"

text \<open>\<open>headers.get(key, default)\<close>.\<close>

definition dict_get :: "('k \<times> 'v) list \<Rightarrow> 'k \<Rightarrow> 'v \<Rightarrow> 'v" where
  "dict_get d k dflt = (case map_of d k of None \<Rightarrow> dflt | Some v \<Rightarrow> v)"

text \<open>
  The \<open>while attempt < max_attempts\<close> loop of \<open>send_request_with_retries\<close>. The two source
  functions differ only in the commented-out live call (\<open>requests.put\<close> for stocks,
  \<open>requests.post\<close> for prices), so one loop models both. The response is
  \<open>FakeResponse()\<close>, built with the constructor's defaults; no \<open>Request\<close> event is ever added to
  the trace because the source issues none.
\<close>

function send_request_loop ::
  "string \<Rightarrow> dict \<Rightarrow> 'b \<Rightarrow> int \<Rightarrow> int \<Rightarrow> 'b net \<Rightarrow> dict option \<times> 'b net" where
  "send_request_loop url headers body max_attempts attempt w =
     (if attempt < max_attempts then
        (let response = FakeResponse 200 None in
         if status_code response = 200 then (Some (json_body response), w)
         else if 500 \<le> status_code response \<and> status_code response < 600 then
           send_request_loop url headers body max_attempts (attempt + 1) (w @ [Sleep 3])
         else if status_code response = 429 then
           send_request_loop url headers body max_attempts (attempt + 1)
             (w @ [Sleep (dict_get (resp_headers response) ''Retry-After'' 10)])
         else (None, w))
      else (None, w))"
  by pat_completeness auto
termination
  by (relation "measure (\<lambda>(url, headers, body, max_attempts, attempt, w). nat (max_attempts - attempt))")
     auto

declare send_request_loop.simps [simp del]

definition stocks_send_request_with_retries ::
  "string \<Rightarrow> dict \<Rightarrow> 'b \<Rightarrow> int \<Rightarrow> 'b net \<Rightarrow> dict option \<times> 'b net" where
  "stocks_send_request_with_retries url headers body max_attempts w =
     send_request_loop url headers body max_attempts 0 w"

definition prices_send_request_with_retries ::
  "string \<Rightarrow> dict \<Rightarrow> 'b \<Rightarrow> int \<Rightarrow> 'b net \<Rightarrow> dict option \<times> 'b net" where
  "prices_send_request_with_retries url headers body max_attempts w =
     send_request_loop url headers body max_attempts 0 w"

section \<open>Stock pipeline: batching and sending\<close>

text \<open>A stock offer is the dictionary \<open>{"offerId": ..., "qua": ...}\<close>.\<close>

record stock_offer =
  offerId :: string
  qua :: int

text \<open>The request shape \<open>{"skus": [{"sku": ..., "items": [{"count": ...}]}, ...]}\<close>.\<close>

record sku_item =
  count :: int

record sku_entry =
  sku :: string
  items :: "sku_item list"

record stock_batch =
  skus :: "sku_entry list"

definition stock_sku :: "stock_offer \<Rightarrow> sku_entry" where
  "stock_sku offer = \<lparr>sku = offerId offer, items = [\<lparr>count = qua offer\<rparr>]\<rparr>"

text \<open>
  \<open>for i in range(0, len(offers), batch_size)\<close> with a positive step: the loop variable
  starts at \<open>i\<close> and advances by \<open>batch_size\<close> while it is below \<open>len(offers)\<close>.
\<close>

function stocks_batches_from :: "stock_offer list \<Rightarrow> nat \<Rightarrow> nat \<Rightarrow> stock_batch list" where
  "stocks_batches_from offers batch_size i =
     (if 0 < batch_size \<and> i < length offers then
        \<lparr>skus = map stock_sku (slice offers i (i + batch_size))\<rparr>
          # stocks_batches_from offers batch_size (i + batch_size)
      else [])"
  by pat_completeness auto
termination
  by (relation "measure (\<lambda>(offers, batch_size, i). length offers - i)") auto

declare stocks_batches_from.simps [simp del]

text \<open>
  \<open>range\<close> raises ValueError for a zero step and is empty for a negative one.
\<close>

definition stocks_prepare_batches :: "stock_offer list \<Rightarrow> int \<Rightarrow> py_error + stock_batch list" where
  "stocks_prepare_batches offers batch_size =
     (if batch_size = 0 then Inl ValueError
      else if batch_size < 0 then Inr []
      else Inr (stocks_batches_from offers (nat batch_size) 0))"

text \<open>
  The loop of \<open>update_stocks\<close> over the batches: send, append the answer, sleep one second.
\<close>

fun stocks_send_batches ::
  "string \<Rightarrow> dict \<Rightarrow> stock_batch list \<Rightarrow> stock_batch net \<Rightarrow> dict option list \<times> stock_batch net" where
  "stocks_send_batches url headers [] w = ([], w)"
| "stocks_send_batches url headers (batch # rest) w =
     (let (response, w1) = stocks_send_request_with_retries url headers batch 3 w;
          w2 = w1 @ [Sleep 1];
          (responses, w3) = stocks_send_batches url headers rest w2
      in (response # responses, w3))"

definition api_headers :: "string \<Rightarrow> dict" where
  "api_headers api_token =
     [(''Api-Key'', api_token), (''Accept'', ''application/json''),
      (''X-Market-Integration'', ''OrderGuardTest'')]"

definition update_stocks ::
  "string \<Rightarrow> string \<Rightarrow> stock_offer list \<Rightarrow> stock_batch net
     \<Rightarrow> (py_error + dict option list) \<times> stock_batch net" where
  "update_stocks api_token campaign_id offers w =
     (let url = ''https://api.partner.market.yandex.ru/campaigns/'' @ campaign_id @ ''/offers/stocks'';
          headers = api_headers api_token
      in case stocks_prepare_batches offers 300 of
           Inl e \<Rightarrow> (Inl e, w)
         | Inr batches \<Rightarrow>
             (let (responses, w') = stocks_send_batches url headers batches w
              in (Inr responses, w')))"

section \<open>Price pipeline: batching and sending\<close>

text \<open>A price offer is \<open>{"offerId": ..., "price": ..., "discountBase": ...}\<close>.\<close>

record price_offer =
  po_offerId :: string
  po_price :: int
  po_discountBase :: int

text \<open>
  The request shape
  \<open>{"offers": [{"offerId": ..., "price": {"value": ..., "currencyId": "RUR", "discountBase": ...}}]}\<close>.
\<close>

record price_body =
  pb_value :: int
  currencyId :: string
  pb_discountBase :: int

record price_entry =
  pe_offerId :: string
  pe_price :: price_body

record price_batch =
  offers_of :: "price_entry list"

definition price_entry_of :: "price_offer \<Rightarrow> price_entry" where
  "price_entry_of offer =
     \<lparr>pe_offerId = po_offerId offer,
      pe_price = \<lparr>pb_value = po_price offer, currencyId = ''RUR'',
                  pb_discountBase = po_discountBase offer\<rparr>\<rparr>"

function prices_batches_from :: "price_offer list \<Rightarrow> nat \<Rightarrow> nat \<Rightarrow> price_batch list" where
  "prices_batches_from offers batch_size i =
     (if 0 < batch_size \<and> i < length offers then
        \<lparr>offers_of = map price_entry_of (slice offers i (i + batch_size))\<rparr>
          # prices_batches_from offers batch_size (i + batch_size)
      else [])"
  by pat_completeness auto
termination
  by (relation "measure (\<lambda>(offers, batch_size, i). length offers - i)") auto

declare prices_batches_from.simps [simp del]

definition prices_prepare_batches :: "price_offer list \<Rightarrow> int \<Rightarrow> py_error + price_batch list" where
  "prices_prepare_batches offers batch_size =
     (if batch_size = 0 then Inl ValueError
      else if batch_size < 0 then Inr []
      else Inr (prices_batches_from offers (nat batch_size) 0))"

fun prices_send_batches ::
  "string \<Rightarrow> dict \<Rightarrow> price_batch list \<Rightarrow> price_batch net \<Rightarrow> dict option list \<times> price_batch net" where
  "prices_send_batches url headers [] w = ([], w)"
| "prices_send_batches url headers (batch # rest) w =
     (let (response, w1) = prices_send_request_with_retries url headers batch 3 w;
          w2 = w1 @ [Sleep 1];
          (responses, w3) = prices_send_batches url headers rest w2
      in (response # responses, w3))"

definition update_prices ::
  "string \<Rightarrow> string \<Rightarrow> price_offer list \<Rightarrow> price_batch net
     \<Rightarrow> (py_error + dict option list) \<times> price_batch net" where
  "update_prices api_token business_id offers w =
     (let url = ''https://api.partner.market.yandex.ru/businesses/'' @ business_id
                  @ ''/offer-prices/updates'';
          headers = api_headers api_token
      in case prices_prepare_batches offers 300 of
           Inl e \<Rightarrow> (Inl e, w)
         | Inr batches \<Rightarrow>
             (let (responses, w') = prices_send_batches url headers batches w
              in (Inr responses, w')))"

section \<open>Specification-side helper: sizes of consecutive chunks\<close>

text \<open>
  Follows the spec's words, not the code: splitting \<open>m\<close> items into consecutive chunks
  of \<open>n\<close> gives \<open>m div n\<close> full chunks and, when \<open>n\<close> does not divide \<open>m\<close>, a last
  chunk with the remainder.
\<close>

definition chunk_sizes :: "nat \<Rightarrow> nat \<Rightarrow> nat list" where
  "chunk_sizes m n = replicate (m div n) n @ (if m mod n = 0 then [] else [m mod n])"

section \<open>Spreadsheets\<close>

text \<open>
  \<open>pd.read_excel\<close> yields a table: the header row and the data rows. A row is modelled by
  the cells of the columns that the function reads; \<open>columns\<close> lists every column name of
  the sheet, so the check for required columns is the source's. A cell is blank, holds a
  number, or holds text.
\<close>

datatype xl = Blank | Num rat | Text string

record 'r sheet =
  columns :: "string list"
  rows :: "'r list"

subsection \<open>Float64\<close>

text \<open>
  A float64 value is NaN, an infinity, or a finite binary64 number, kept as the rational
  it denotes. The sign of an infinity and of zero is not kept: nothing that the modelled
  code observes depends on it.
\<close>

datatype float64 = NaN | Infinity | Fin (fin_val: rat)

text \<open>
  The binary exponent of a positive rational: the greatest \<open>e\<close> with \<open>2 ^ e \<le> x\<close>, by halving from above
  and doubling from below.
\<close>

function log2_up :: "rat \<Rightarrow> nat" where
  "log2_up x = (if 2 \<le> x then Suc (log2_up (x / 2)) else 0)"
  by pat_completeness auto
termination
proof (relation "measure (\<lambda>x. nat \<lfloor>x\<rfloor>)")
  show "wf (measure (\<lambda>x::rat. nat \<lfloor>x\<rfloor>))" by simp
next
  fix x :: rat
  assume "2 \<le> x"
  then have "x / 2 \<le> x - 1" by simp
  then have "\<lfloor>x / 2\<rfloor> \<le> \<lfloor>x - 1\<rfloor>" by (rule floor_mono)
  also have "\<dots> = \<lfloor>x\<rfloor> - 1" by simp
  finally have "\<lfloor>x / 2\<rfloor> < \<lfloor>x\<rfloor>" by simp
  moreover from \<open>2 \<le> x\<close> have "0 < \<lfloor>x\<rfloor>" by simp
  ultimately show "(x / 2, x) \<in> measure (\<lambda>x. nat \<lfloor>x\<rfloor>)" by simp
qed

declare log2_up.simps [simp del]

function log2_down :: "rat \<Rightarrow> nat" where
  "log2_down x = (if 0 < x \<and> x < 1 then Suc (log2_down (x * 2)) else 0)"
  by pat_completeness auto
termination
proof (relation "measure (\<lambda>x. nat \<lfloor>1 / x\<rfloor>)")
  show "wf (measure (\<lambda>x::rat. nat \<lfloor>1 / x\<rfloor>))" by simp
next
  fix x :: rat
  assume a: "0 < x \<and> x < 1"
  then have y: "1 < 1 / x" by simp
  have "\<lfloor>(1 / x) / 2\<rfloor> < \<lfloor>1 / x\<rfloor>"
  proof (cases "2 \<le> 1 / x")
    case True
    then have "(1 / x) / 2 \<le> 1 / x - 1" by simp
    then have "\<lfloor>(1 / x) / 2\<rfloor> \<le> \<lfloor>1 / x - 1\<rfloor>" by (rule floor_mono)
    then show ?thesis by simp
  next
    case False
    with y have "(1 / x) / 2 < 1" by simp
    moreover from a have "0 \<le> (1 / x) / 2" by simp
    ultimately have "\<lfloor>(1 / x) / 2\<rfloor> = 0" by (simp add: floor_eq_iff)
    moreover from y have "1 \<le> \<lfloor>1 / x\<rfloor>" by (simp add: le_floor_iff)
    ultimately show ?thesis by simp
  qed
  moreover from y have "0 < \<lfloor>1 / x\<rfloor>" by (simp add: less_floor_iff)
  ultimately show "(x * 2, x) \<in> measure (\<lambda>x. nat \<lfloor>1 / x\<rfloor>)" by simp
qed

declare log2_down.simps [simp del]

definition exponent :: "rat \<Rightarrow> int" where
  "exponent x = (if 1 \<le> x then int (log2_up x) else - int (log2_down x))"

definition pow2 :: "int \<Rightarrow> rat" where
  "pow2 e = (if 0 \<le> e then 2 ^ nat e else 1 / 2 ^ nat (- e))"

text \<open>Rounding to the nearest integer, a tie going to the even one.\<close>

definition round_half_even :: "rat \<Rightarrow> int" where
  "round_half_even y =
     (let f = \<lfloor>y\<rfloor>; d = y - of_int f
      in if d < 1 / 2 then f else if 1 / 2 < d then f + 1 else if even f then f else f + 1)"

text \<open>
  The spacing of the binary64 numbers around \<open>x\<close>: 53 significant bits in the normal
  range, whose least exponent is -1022; below it the spacing stays \<open>2 ^ (-1074)\<close>.
\<close>

definition ulp :: "rat \<Rightarrow> rat" where
  "ulp x = pow2 (max (exponent \<bar>x\<bar>) (- 1022) - 52)"

text \<open>
  The binary64 number nearest to a rational, ties to even (the rounding mode of the
  machine), and the float64 value that a rational becomes: an infinity from
  \<open>2 ^ 1024 - 2 ^ 970\<close> on, where the nearest number would need the exponent 1024.
\<close>

definition round_double :: "rat \<Rightarrow> rat" where
  "round_double x = (if x = 0 then 0 else of_int (round_half_even (x / ulp x)) * ulp x)"

definition double_of_rat :: "rat \<Rightarrow> float64" where
  "double_of_rat x = (if 2 ^ 1024 - 2 ^ 970 \<le> \<bar>x\<bar> then Infinity else Fin (round_double x))"





text \<open>Truncation toward zero, and the 64-bit two's-complement range.\<close>

definition trunc :: "rat \<Rightarrow> int" where
  "trunc q = (if 0 \<le> q then \<lfloor>q\<rfloor> else \<lceil>q\<rceil>)"

definition in_int64 :: "int \<Rightarrow> bool" where
  "in_int64 n = (- (2 ^ 63) \<le> n \<and> n < 2 ^ 63)"

definition int64_wrap :: "int \<Rightarrow> int" where
  "int64_wrap n = (n + 2 ^ 63) mod 2 ^ 64 - 2 ^ 63"

text \<open>An operation applied to a whole column fails with the first failing cell.\<close>

fun sequence_err :: "(py_error + 'a) list \<Rightarrow> py_error + 'a list" where
  "sequence_err [] = Inr []"
| "sequence_err (x # xs) =
     (case x of Inl e \<Rightarrow> Inl e
      | Inr v \<Rightarrow> (case sequence_err xs of Inl e \<Rightarrow> Inl e | Inr vs \<Rightarrow> Inr (v # vs)))"

section \<open>Stock pipeline: reading the quantity sheet\<close>

text \<open>
  A row of the quantity sheet: the cell of the SKU column, of any pandas value type \<open>'c\<close>,
  and the cell of the quantity column. \<open>astype_str\<close> is what \<open>astype(str)\<close> makes of a SKU
  cell.
\<close>

record 'c stock_row =
  s_Artikul :: 'c
  s_Kolichestvo :: xl

text \<open>
  \<open>fillna(0)\<close> on one quantity cell.
\<close>

definition fillna_xl :: "xl \<Rightarrow> rat \<Rightarrow> xl" where
  "fillna_xl c d = (case c of Blank \<Rightarrow> Num d | Num q \<Rightarrow> Num q | Text t \<Rightarrow> Text t)"

text \<open>
  \<open>astype(int)\<close> on the quantity column. A column without text is numeric: the cast from
  float64 to int64 truncates toward zero and wraps around silently outside the int64
  range; pandas refuses NaN and the infinities with a ValueError. A column with a text
  cell has dtype object, and then every cell goes through Python's \<open>int\<close>: a number is
  truncated, text is parsed (the grammar is the parameter \<open>str_to_int\<close>, \<open>None\<close> when
  \<open>int\<close> raises ValueError), and an integer outside the int64 range cannot be stored
  (OverflowError).
\<close>

definition is_text :: "xl \<Rightarrow> bool" where
  "is_text c = (case c of Text t \<Rightarrow> True | _ \<Rightarrow> False)"

definition float64_to_int64 :: "float64 \<Rightarrow> py_error + int" where
  "float64_to_int64 x = (case x of NaN \<Rightarrow> Inl ValueError | Infinity \<Rightarrow> Inl ValueError
                         | Fin q \<Rightarrow> Inr (int64_wrap (trunc q)))"

definition store_int64 :: "int \<Rightarrow> py_error + int" where
  "store_int64 n = (if in_int64 n then Inr n else Inl OverflowError)"

definition object_to_int64 :: "(string \<Rightarrow> int option) \<Rightarrow> xl \<Rightarrow> py_error + int" where
  "object_to_int64 str_to_int c =
     (case c of
        Blank \<Rightarrow> Inl ValueError
      | Num q \<Rightarrow> (case double_of_rat q of
                    NaN \<Rightarrow> Inl ValueError
                  | Infinity \<Rightarrow> Inl OverflowError
                  | Fin r \<Rightarrow> store_int64 (trunc r))
      | Text t \<Rightarrow> (case str_to_int t of None \<Rightarrow> Inl ValueError | Some n \<Rightarrow> store_int64 n))"

definition astype_int :: "(string \<Rightarrow> int option) \<Rightarrow> xl list \<Rightarrow> py_error + int list" where
  "astype_int str_to_int cells =
     (if list_ex is_text cells then sequence_err (map (object_to_int64 str_to_int) cells)
      else sequence_err
             (map (\<lambda>c. float64_to_int64 (case c of Num q \<Rightarrow> double_of_rat q | _ \<Rightarrow> NaN)) cells))"

definition stocks_prepare_offers_data ::
  "(string \<Rightarrow> int option) \<Rightarrow> ('c \<Rightarrow> string) \<Rightarrow> 'c stock_row sheet \<Rightarrow> py_error + stock_offer list" where
  "stocks_prepare_offers_data str_to_int astype_str df_products =
     (if \<not> {col_Artikul, col_Kolichestvo} \<subseteq> set (columns df_products) then Inl ValueError
      else
        (let artikul = map (\<lambda>row. astype_str (s_Artikul row)) (rows df_products)
         in case astype_int str_to_int
                   (map (\<lambda>row. fillna_xl (s_Kolichestvo row) 0) (rows df_products)) of
              Inl e \<Rightarrow> Inl e
            | Inr kolichestvo \<Rightarrow>
                Inr (map (\<lambda>(offer_id, cnt). \<lparr>offerId = offer_id, qua = cnt\<rparr>)
                       (zip artikul kolichestvo))))"

section \<open>Price pipeline: joining products and markups\<close>











section \<open>Confirmations pipeline: tables\<close>

text \<open>
  A confirmation table is a sheet whose rows are dictionaries from column names to cells.
  A cell holds a number or text; a blank cell (NaN) is a column without an entry in the
  row. Keys are compared as pandas compares them: equal numbers are equal whether read as
  integers or floats, and blank keys are duplicates of each other.
\<close>

datatype cell = CNum rat | CStr string

type_synonym conf_row = "(string \<times> cell) list"

type_synonym table = "conf_row sheet"

definition net_dannyh :: string where
  "net_dannyh = [CHR 0xD0, CHR 0xBD, CHR 0xD0, CHR 0xB5, CHR 0xD1, CHR 0x82, CHR 0x20, CHR 0xD0,
     CHR 0xB4, CHR 0xD0, CHR 0xB0, CHR 0xD0, CHR 0xBD, CHR 0xD0, CHR 0xBD, CHR 0xD1, CHR 0x8B, CHR 0xD1,
     CHR 0x85]"

text \<open>\<open>row[column]\<close> as an option: \<open>None\<close> for a blank cell.\<close>

definition row_get :: "conf_row \<Rightarrow> string \<Rightarrow> cell option" where
  "row_get row c = map_of row c"

definition validate_dataframe :: "table \<Rightarrow> bool" where
  "validate_dataframe df = (''HDRTAG2'' \<in> set (columns df))"

text \<open>
  \<open>DataFrame.drop_duplicates(subset=[key])\<close> with the default \<open>keep='first'\<close>: a row
  stays when no earlier row has its key. \<open>seen\<close> holds the keys met so far.
\<close>

fun drop_duplicates_from :: "('r \<Rightarrow> 'k) \<Rightarrow> 'k list \<Rightarrow> 'r list \<Rightarrow> 'r list" where
  "drop_duplicates_from key seen [] = []"
| "drop_duplicates_from key seen (r # rs) =
     (if key r \<in> set seen then drop_duplicates_from key seen rs
      else r # drop_duplicates_from key (key r # seen) rs)"

text \<open>\<open>df.empty\<close>: no rows or no columns.\<close>

definition df_empty :: "table \<Rightarrow> bool" where
  "df_empty df = (rows df = [] \<or> columns df = [])"

text \<open>
  \<open>extract_unique_orders\<close>: \<open>drop_duplicates\<close> returns a copy of an empty table before
  it looks at the subset; on any other table it raises KeyError when the table has no
  such column, and the \<open>except\<close> clause turns every exception into \<open>None\<close>.
\<close>

definition extract_unique_orders :: "table \<Rightarrow> table option" where
  "extract_unique_orders df =
     (if df_empty df then Some df
      else if ''HDRTAG2'' \<in> set (columns df)
      then Some (df\<lparr>rows := drop_duplicates_from (\<lambda>row. row_get row ''HDRTAG2'') [] (rows df)\<rparr>)
      else None)"

section \<open>Confirmations pipeline: the status update\<close>

text \<open>
  \<open>int(cell)\<close>: a number is truncated toward zero; a blank cell raises; text is parsed by
  Python's \<open>int\<close>, whose grammar is the parameter \<open>parse\<close> (\<open>None\<close> when it raises).
\<close>

definition py_int :: "(string \<Rightarrow> int option) \<Rightarrow> cell option \<Rightarrow> int option" where
  "py_int parse c =
     (case c of
        None \<Rightarrow> None
      | Some (CNum q) \<Rightarrow> Some (if 0 \<le> q then \<lfloor>q\<rfloor> else \<lceil>q\<rceil>)
      | Some (CStr s) \<Rightarrow> parse s)"

record order_update =
  ou_id :: int
  ou_status :: string
  ou_substatus :: string

text \<open>
  \<open>build_order_payload\<close>: a row whose key does not convert is skipped (the \<open>except\<close>
  clause only logs); the two result lists grow together.
\<close>

fun build_order_payload ::
  "(string \<Rightarrow> int option) \<Rightarrow> conf_row list \<Rightarrow> string \<Rightarrow> string \<Rightarrow> order_update list \<times> int list" where
  "build_order_payload parse [] new_status new_substatus = ([], [])"
| "build_order_payload parse (row # rest) new_status new_substatus =
     (let (orders, ids_sent) = build_order_payload parse rest new_status new_substatus
      in case py_int parse (row_get row ''HDRTAG2'') of
           None \<Rightarrow> (orders, ids_sent)
         | Some order_id \<Rightarrow>
             (\<lparr>ou_id = order_id, ou_status = new_status, ou_substatus = new_substatus\<rparr> # orders,
              order_id # ids_sent))"

text \<open>
  What one \<open>requests.post\<close> call does: it returns a response with a status code, raises a
  \<open>RequestException\<close>, or raises something else. The server is a script: the outcome of
  the request that follows \<open>k\<close> earlier requests is \<open>server k\<close>.
\<close>

datatype http_outcome = Status int | RequestException | OtherException

text \<open>
  The loop \<open>for attempt in range(1, max_retries + 1)\<close> of \<open>send_status_update_request\<close>.
  Falling out of the loop returns Python's \<open>None\<close>. \<open>time.sleep\<close> raises ValueError for a
  negative argument and sleeps otherwise. After a retryable status the sleep is inside
  the \<open>try\<close>, so \<open>except Exception\<close> catches that ValueError and the function returns
  \<open>False\<close>; after a \<open>RequestException\<close> the sleep is inside the handler, so the ValueError
  leaves the function.
\<close>

function send_status_loop ::
  "(nat \<Rightarrow> http_outcome) \<Rightarrow> string \<Rightarrow> 'b \<Rightarrow> int \<Rightarrow> int \<Rightarrow> int \<Rightarrow> 'b net
     \<Rightarrow> (py_error + bool option) \<times> 'b net" where
  "send_status_loop server url payload max_retries retry_delay attempt w =
     (if attempt \<le> max_retries then
        (let outcome = server (length (requests w));
             w1 = w @ [Request url payload]
         in case outcome of
              Status code \<Rightarrow>
                if code = 200 then (Inr (Some True), w1)
                else if code \<in> {429, 500, 502, 503, 504} then
                  (if attempt < max_retries then
                     (if retry_delay * attempt < 0 then (Inr (Some False), w1)
                      else send_status_loop server url payload max_retries retry_delay (attempt + 1)
                             (w1 @ [Sleep (retry_delay * attempt)]))
                   else (Inr (Some False), w1))
                else (Inr (Some False), w1)
            | RequestException \<Rightarrow>
                (if attempt < max_retries then
                   (if retry_delay * attempt < 0 then (Inl ValueError, w1)
                    else send_status_loop server url payload max_retries retry_delay (attempt + 1)
                           (w1 @ [Sleep (retry_delay * attempt)]))
                 else (Inr (Some False), w1))
            | OtherException \<Rightarrow> (Inr (Some False), w1))
      else (Inr None, w))"
  by pat_completeness auto
termination
  by (relation "measure (\<lambda>(server, url, payload, max_retries, retry_delay, attempt, w).
                  nat (max_retries + 1 - attempt))") auto

declare send_status_loop.simps [simp del]

definition send_status_update_request ::
  "(nat \<Rightarrow> http_outcome) \<Rightarrow> 'b \<Rightarrow> string \<Rightarrow> dict \<Rightarrow> int \<Rightarrow> int \<Rightarrow> 'b net
     \<Rightarrow> (py_error + bool option) \<times> 'b net" where
  "send_status_update_request server payload campaign_id headers max_retries retry_delay w =
     send_status_loop server
       (''https://api.partner.market.yandex.ru/campaigns/'' @ campaign_id @ ''/orders/status-update'')
       payload max_retries retry_delay 1 w"

text \<open>
  \<open>update_order_statuses\<close>; \<open>ids_sent if success else None\<close> takes \<open>ids_sent\<close> only for
  \<open>True\<close>. An exception that leaves the send step leaves this function too.
\<close>

definition update_order_statuses ::
  "(nat \<Rightarrow> http_outcome) \<Rightarrow> (string \<Rightarrow> int option) \<Rightarrow> table \<Rightarrow> string \<Rightarrow> dict \<Rightarrow> int \<Rightarrow> int
     \<Rightarrow> order_update list net \<Rightarrow> (py_error + int list option) \<times> order_update list net" where
  "update_order_statuses server parse df campaign_id headers max_retries retry_delay w =
     (if \<not> validate_dataframe df then (Inr None, w)
      else case extract_unique_orders df of
             None \<Rightarrow> (Inr None, w)
           | Some unique_df \<Rightarrow>
               (let (orders, ids_sent) =
                      build_order_payload parse (rows unique_df) ''PROCESSING'' ''READY_TO_SHIP''
                in if orders = [] then (Inr (Some []), w)
                   else
                     (let (success, w') =
                            send_status_update_request server orders campaign_id headers
                              max_retries retry_delay w
                      in case success of
                           Inl e \<Rightarrow> (Inl e, w')
                         | Inr s \<Rightarrow> (Inr (if s = Some True then Some ids_sent else None), w'))))"

section \<open>Confirmations pipeline: ingestion\<close>

text \<open>\<open>s.endswith(suffix)\<close>.\<close>

definition endswith :: "string \<Rightarrow> string \<Rightarrow> bool" where
  "endswith s suffix =
     (length suffix \<le> length s \<and> drop (length s - length suffix) s = suffix)"

text \<open>
  \<open>df.fillna(v)\<close>: every column of every row gets an entry. \<open>pd.concat([a, b],
  ignore_index=True)\<close>: the columns of \<open>a\<close> followed by the new ones of \<open>b\<close>, the rows of
  \<open>a\<close> followed by those of \<open>b\<close>.
\<close>

definition fillna_table :: "table \<Rightarrow> cell \<Rightarrow> table" where
  "fillna_table df v =
     df\<lparr>rows := map (\<lambda>row. map (\<lambda>c. (c, case row_get row c of None \<Rightarrow> v | Some x \<Rightarrow> x))
                                 (columns df))
                      (rows df)\<rparr>"

definition concat_tables :: "table \<Rightarrow> table \<Rightarrow> table" where
  "concat_tables a b =
     \<lparr>columns = columns a @ filter (\<lambda>c. c \<notin> set (columns a)) (columns b),
      rows = rows a @ rows b\<rparr>"

text \<open>
  \<open>pd.concat(objs, ignore_index=True)\<close> on a list: \<open>None\<close> entries are dropped, and a list
  without any table raises ValueError.
\<close>

definition pd_concat :: "table option list \<Rightarrow> py_error + table" where
  "pd_concat objs =
     (case concat (map (\<lambda>obj. case obj of None \<Rightarrow> [] | Some t \<Rightarrow> [t]) objs) of
        [] \<Rightarrow> Inl ValueError
      | t # ts \<Rightarrow> Inr (foldl concat_tables t ts))"

text \<open>
  \<open>append_data_from_file\<close>. \<open>file_data\<close> is what \<open>pd.read_excel\<close> makes of the file,
  \<open>None\<close> when it raises; then the \<open>except\<close> clause returns \<open>df\<close> as it was passed.
\<close>

definition append_data_from_file :: "table option \<Rightarrow> table option \<Rightarrow> table option" where
  "append_data_from_file file_data df =
     (case file_data of
        None \<Rightarrow> df
      | Some data \<Rightarrow>
          Some (fillna_table (case df of None \<Rightarrow> data | Some d \<Rightarrow> concat_tables d data)
                  (CStr net_dannyh)))"

text \<open>
  The world of a confirmations run: the files that \<open>os.walk\<close> finds under the inbox, in
  walk order, each with its directory, its name and what \<open>pd.read_excel\<close> makes of it; the
  names present in the processed directory; the HTTP log of the status update; the label
  jobs requested; the recap workbooks written; and what \<open>pprint\<close> printed.
\<close>

record conf_world =
  inbox :: "(string \<times> string \<times> table option) list"
  processed :: "string list"
  http :: "order_update list net"
  label_requests :: "cell option list list"
  recaps :: "string list"
  printed :: "int list option list"

text \<open>
  The two nested loops of \<open>process_confirmation_files\<close> over the walked files. The result
  is \<open>all_dataframes\<close>, the names in the processed directory, and the files left in the
  inbox. \<open>shutil.move\<close> puts the file under its name into the processed directory.
\<close>

fun process_files ::
  "(string \<times> string \<times> table option) list \<Rightarrow> string list
     \<Rightarrow> table option list \<times> string list \<times> (string \<times> string \<times> table option) list" where
  "process_files [] archive = ([], archive, [])"
| "process_files ((dirpath, file, file_data) # rest) archive =
     (if \<not> endswith file ''.xls'' then
        (let (all_dataframes, archive', left) = process_files rest archive
         in (all_dataframes, archive', (dirpath, file, file_data) # left))
      else if file \<in> set archive then
        (let (all_dataframes, archive', left) = process_files rest archive
         in (all_dataframes, archive', (dirpath, file, file_data) # left))
      else
        (let df = append_data_from_file file_data None;
             (all_dataframes, archive', left) = process_files rest (archive @ [file])
         in (df # all_dataframes, archive', left)))"

definition process_confirmation_files :: "conf_world \<Rightarrow> (py_error + table) \<times> conf_world" where
  "process_confirmation_files w =
     (let (all_dataframes, archive, left) = process_files (inbox w) (processed w);
          w' = w\<lparr>inbox := left, processed := archive\<rparr>
      in if all_dataframes \<noteq> [] then (pd_concat all_dataframes, w')
         else (Inr \<lparr>columns = [], rows = []\<rparr>, w'))"

section \<open>Confirmations pipeline: the recap workbook and the orchestrator\<close>

text \<open>
  \<open>save_orders_to_excel\<close>. \<open>pivot_table\<close>, \<open>to_excel(columns=...)\<close>, \<open>groupby\<close> and
  \<open>drop(columns=...)\<close> raise KeyError when a column they name is not in the table; the
  \<open>drop\<close> sits in the loop over the groups and is reached only when there is a row. What
  the aggregation and the writing of the sheets do beyond that is the parameter
  \<open>write_workbook\<close> (\<open>None\<close> when they succeed). All of it runs inside
  \<open>with pd.ExcelWriter(...)\<close>: when the body raises \<open>e\<close>, the writer is closed on the way
  out and the exception that leaves the block is \<open>writer_exit e\<close>, \<open>e\<close> itself or what the
  closing raises, a parameter. \<open>now\<close> is the formatted clock reading. \<open>recaps\<close> records
  the workbooks that were completed.
\<close>

definition save_orders_to_excel ::
  "(py_error \<Rightarrow> py_error) \<Rightarrow> (table \<Rightarrow> py_error option) \<Rightarrow> string \<Rightarrow> table \<Rightarrow> conf_world
     \<Rightarrow> (py_error + string) \<times> conf_world" where
  "save_orders_to_excel writer_exit write_workbook now dataframe w =
     (let file_name = ''recap-YANDEX-'' @ now @ ''.xlsx''
      in if \<not> set [''QNT'', ''HDRTAG2'', ''HDRTAG1''] \<subseteq> set (columns dataframe)
           then (Inl (writer_exit KeyError), w)
         else if \<not> set [''QNT'', ''FIRM'', ''CODEART'', ''NAME'', ''GDATE'']
                    \<subseteq> set (columns dataframe)
           then (Inl (writer_exit KeyError), w)
         else if \<not> set [''HDRTAG2'', ''FIRM'', ''CODEART'', ''NAME'', ''QNT'']
                    \<subseteq> set (columns dataframe)
           then (Inl (writer_exit KeyError), w)
         else if rows dataframe \<noteq> []
                 \<and> \<not> set [''PODRCD'', ''REFUSED'', ''CODEPST''] \<subseteq> set (columns dataframe)
           then (Inl (writer_exit KeyError), w)
         else case write_workbook dataframe of
                Some e \<Rightarrow> (Inl (writer_exit e), w)
              | None \<Rightarrow> (Inr file_name, w\<lparr>recaps := recaps w @ [file_name]\<rparr>))"

text \<open>The constants of the settings module that the orchestrator reads.\<close>

record settings =
  CAMPAIGN_ID :: string
  HEADERS :: dict
  RECAPS_DIR :: string

text \<open>
  \<open>main\<close> of \<open>confirmations.py\<close>. The FTP download is the world transformer
  \<open>download\<close>; \<open>format_report_sheets\<close> says whether the formatting of the saved workbook
  raises; \<open>generate_order_labels\<close> is recorded as a label job for the distinct order keys.
  The result is the exception that stopped the run, or \<open>None\<close> when it ran to its end.
\<close>

definition confirmations_main ::
  "settings \<Rightarrow> (conf_world \<Rightarrow> conf_world) \<Rightarrow> (py_error \<Rightarrow> py_error)
     \<Rightarrow> (table \<Rightarrow> py_error option) \<Rightarrow> string
     \<Rightarrow> (string \<Rightarrow> py_error option) \<Rightarrow> (nat \<Rightarrow> http_outcome) \<Rightarrow> (string \<Rightarrow> int option)
     \<Rightarrow> conf_world \<Rightarrow> py_error option \<times> conf_world" where
  "confirmations_main cfg download writer_exit write_workbook now format_report_sheets server parse
       w0 =
     (let w1 = download w0;
          (confirmations, w2) = process_confirmation_files w1
      in case confirmations of
           Inl e \<Rightarrow> (Some e, w2)
         | Inr confirmations_df \<Rightarrow>
            (case save_orders_to_excel writer_exit write_workbook now confirmations_df w2 of
               (Inl e, w3) \<Rightarrow> (Some e, w3)
             | (Inr report_name, w3) \<Rightarrow>
                (case format_report_sheets (RECAPS_DIR cfg @ ''/'' @ report_name) of
                   Some e \<Rightarrow> (Some e, w3)
                 | None \<Rightarrow>
                    if ''HDRTAG2'' \<notin> set (columns confirmations_df) then (Some KeyError, w3)
                    else
                      (let orders_id = drop_duplicates_from (\<lambda>k. k) []
                                         (map (\<lambda>row. row_get row ''HDRTAG2'') (rows confirmations_df));
                           w4 = w3\<lparr>label_requests := label_requests w3 @ [orders_id]\<rparr>
                       in if \<not> df_empty confirmations_df then
                            (case update_order_statuses server parse confirmations_df
                                    (CAMPAIGN_ID cfg) (HEADERS cfg) 3 3 (http w4) of
                               (Inl e, h) \<Rightarrow> (Some e, w4\<lparr>http := h\<rparr>)
                             | (Inr result, h) \<Rightarrow>
                                 (None, w4\<lparr>http := h, printed := printed w4 @ [result]\<rparr>))
                          else (None, w4)))))"

section \<open>Orders pipeline: raw orders\<close>

text \<open>
  A raw marketplace order is parsed JSON. A JSON object is an association list that
  \<open>dict.get\<close> reads by key.
\<close>

datatype json = JNull | JBool bool | JNum rat | JStr string | JArr "json list"
  | JObj "(string \<times> json) list"

text \<open>Sequencing of steps that can raise.\<close>

definition bind_err :: "py_error + 'a \<Rightarrow> ('a \<Rightarrow> py_error + 'b) \<Rightarrow> py_error + 'b" where
  "bind_err m f = (case m of Inl e \<Rightarrow> Inl e | Inr v \<Rightarrow> f v)"

text \<open>
  \<open>v.get(key, default)\<close>: only a dictionary has the method. \<open>v[0]\<close>: the first element of
  a list, IndexError on an empty list or string, KeyError on a dictionary (its keys are
  strings), TypeError on the other values.
\<close>

definition py_get :: "json \<Rightarrow> string \<Rightarrow> json \<Rightarrow> py_error + json" where
  "py_get v key dflt =
     (case v of
        JObj d \<Rightarrow> Inr (case map_of d key of None \<Rightarrow> dflt | Some x \<Rightarrow> x)
      | _ \<Rightarrow> Inl AttributeError)"

definition py_first :: "json \<Rightarrow> py_error + json" where
  "py_first v =
     (case v of
        JArr xs \<Rightarrow> (case xs of [] \<Rightarrow> Inl IndexError | x # _ \<Rightarrow> Inr x)
      | JStr s \<Rightarrow> (case s of [] \<Rightarrow> Inl IndexError | c # _ \<Rightarrow> Inr (JStr [c]))
      | JObj d \<Rightarrow> Inl KeyError
      | _ \<Rightarrow> Inl TypeError)"

text \<open>Python's truth value of a JSON value.\<close>

definition truthy :: "json \<Rightarrow> bool" where
  "truthy v =
     (case v of
        JNull \<Rightarrow> False
      | JBool b \<Rightarrow> b
      | JNum q \<Rightarrow> q \<noteq> 0
      | JStr s \<Rightarrow> s \<noteq> []
      | JArr xs \<Rightarrow> xs \<noteq> []
      | JObj d \<Rightarrow> d \<noteq> [])"

text \<open>The dictionary that \<open>extract_order_data\<close> builds for one order.\<close>

record order_summary =
  order_id :: json
  status :: json
  substatus :: json
  creationDate :: json
  shipmentDate :: json

text \<open>
  The body of the loop of \<open>extract_order_data\<close>, in the source's evaluation order. The
  shipment date is \<open>order.get("delivery", {}).get("shipments", [])[0].get("shipmentDate")\<close>.
\<close>

definition order_summary_of :: "json \<Rightarrow> py_error + order_summary" where
  "order_summary_of order =
     bind_err (py_get order ''id'' JNull) (\<lambda>oid.
     bind_err (py_get order ''items'' (JArr [])) (\<lambda>its.
     bind_err (py_get order ''status'' JNull) (\<lambda>st.
     bind_err (py_get order ''substatus'' JNull) (\<lambda>sub.
     bind_err (py_get order ''creationDate'' JNull) (\<lambda>created.
     bind_err (py_get order ''delivery'' (JObj [])) (\<lambda>delivery.
     bind_err (py_get delivery ''shipments'' (JArr [])) (\<lambda>shipment_list.
     bind_err (py_first shipment_list) (\<lambda>first_shipment.
     bind_err (py_get first_shipment ''shipmentDate'' JNull) (\<lambda>shipped.
       Inr \<lparr>order_id = oid, status = st, substatus = sub, creationDate = created,
            shipmentDate = shipped\<rparr>)))))))))"

fun extract_order_data :: "json list \<Rightarrow> py_error + order_summary list" where
  "extract_order_data [] = Inr []"
| "extract_order_data (order # orders) =
     bind_err (order_summary_of order) (\<lambda>summary.
     bind_err (extract_order_data orders) (\<lambda>result. Inr (summary # result)))"

section \<open>Orders pipeline: export to table files\<close>

datatype date = Date int int int

text \<open>
  The library conversions that the export applies to JSON values: \<open>str\<close>, the parsing of
  text by \<open>float\<close> and \<open>int\<close> (\<open>None\<close> when they raise ValueError), \<open>datetime.strptime\<close>
  followed by \<open>.date()\<close> for a format and a text (\<open>None\<close> when it raises), and whether the
  table accepts a record for its field sizes.
\<close>

record 'r pylib =
  lib_str :: "json \<Rightarrow> string"
  lib_str_to_float :: "string \<Rightarrow> rat option"
  lib_str_to_int :: "string \<Rightarrow> int option"
  lib_strptime :: "string \<Rightarrow> string \<Rightarrow> date option"
  lib_dbf_accepts :: "'r \<Rightarrow> bool"

definition py_float :: "'r pylib \<Rightarrow> json \<Rightarrow> py_error + rat" where
  "py_float L v =
     (case v of
        JNum q \<Rightarrow> Inr q
      | JBool b \<Rightarrow> Inr (if b then 1 else 0)
      | JStr s \<Rightarrow> (case lib_str_to_float L s of None \<Rightarrow> Inl ValueError | Some q \<Rightarrow> Inr q)
      | _ \<Rightarrow> Inl TypeError)"

definition py_int_json :: "'r pylib \<Rightarrow> json \<Rightarrow> py_error + int" where
  "py_int_json L v =
     (case v of
        JNum q \<Rightarrow> Inr (if 0 \<le> q then \<lfloor>q\<rfloor> else \<lceil>q\<rceil>)
      | JBool b \<Rightarrow> Inr (if b then 1 else 0)
      | JStr s \<Rightarrow> (case lib_str_to_int L s of None \<Rightarrow> Inl ValueError | Some n \<Rightarrow> Inr n)
      | _ \<Rightarrow> Inl TypeError)"

text \<open>\<open>strptime\<close> under a bare \<open>except\<close>: anything but a parsable text gives \<open>None\<close>.\<close>

definition parse_date :: "'r pylib \<Rightarrow> string \<Rightarrow> json \<Rightarrow> date option" where
  "parse_date L fmt v = (case v of JStr s \<Rightarrow> lib_strptime L fmt s | _ \<Rightarrow> None)"

text \<open>
  \<open>for item in items\<close>: a list gives its elements, a string its characters, a dictionary
  its keys; the other values are not iterable.
\<close>

definition py_iter :: "json \<Rightarrow> py_error + json list" where
  "py_iter v =
     (case v of
        JArr xs \<Rightarrow> Inr xs
      | JStr s \<Rightarrow> Inr (map (\<lambda>c. JStr [c]) s)
      | JObj d \<Rightarrow> Inr (map (\<lambda>kv. JStr (fst kv)) d)
      | _ \<Rightarrow> Inl TypeError)"

text \<open>\<open>os.path.join\<close> of a directory and a file name, on POSIX.\<close>

definition path_join :: "string \<Rightarrow> string \<Rightarrow> string" where
  "path_join a b =
     (if b \<noteq> [] \<and> hd b = CHR ''/'' then b
      else if a = [] \<or> last a = CHR ''/'' then a @ b
      else a @ ''/'' @ b)"

text \<open>One record of the exported table, in the order of the field specification.\<close>

record dbf_row =
  f_offer_id :: json
  f_name :: json
  f_price :: rat
  f_qty :: int
  f_post_num :: string
  f_ord_date :: "date option"
  f_ship_date :: "date option"
  f_comment :: string
  f_cust_id :: string
  f_div_id :: string

definition zakaz_yandex :: string where
  "zakaz_yandex = [CHR 0x20, CHR 0xD0, CHR 0x97, CHR 0xD0, CHR 0xB0, CHR 0xD0, CHR 0xBA, CHR 0xD0,
     CHR 0xB0, CHR 0xD0, CHR 0xB7, CHR 0x20, CHR 0x59, CHR 0x41, CHR 0x4E, CHR 0x44, CHR 0x45, CHR 0x58,
     CHR 0x20, CHR 0x46, CHR 0x72, CHR 0x65, CHR 0x6E, CHR 0x63, CHR 0x68, CHR 0x70, CHR 0x68, CHR 0x61,
     CHR 0x72, CHR 0x6D, CHR 0x61, CHR 0x63, CHR 0x79]"

text \<open>
  The world of the export: the table files on the local disk, by path, each with the
  records appended so far, and the local paths handed to \<open>upload_file_to_ftp\<close>, oldest
  first. \<open>upload_file_to_ftp\<close> catches every FTP and I/O error itself.
\<close>

record export_world =
  files :: "string \<Rightarrow> dbf_row list option"
  uploads :: "string list"

text \<open>The constants of the settings module that the export reads, after \<open>str\<close>.\<close>

record export_settings =
  CUSTOMER_ID_IN_SUPPLIER_CRM :: string
  DIVISION_ID :: string

text \<open>The tuple appended for one item.\<close>

definition dbf_row_of ::
  "dbf_row pylib \<Rightarrow> export_settings \<Rightarrow> json \<Rightarrow> date option \<Rightarrow> date option \<Rightarrow> json
     \<Rightarrow> py_error + dbf_row" where
  "dbf_row_of L cfg oid order_date shipment_date item =
     bind_err (py_get item ''offerId'' (JStr [])) (\<lambda>offer.
     bind_err (py_get item ''offerName'' (JStr [])) (\<lambda>offer_name.
     bind_err (py_get item ''price'' (JNum 0)) (\<lambda>p.
     bind_err (py_float L p) (\<lambda>price_value.
     bind_err (py_get item ''count'' (JNum 0)) (\<lambda>c.
     bind_err (py_int_json L c) (\<lambda>count_value.
       Inr \<lparr>f_offer_id = offer, f_name = offer_name, f_price = price_value, f_qty = count_value,
            f_post_num = lib_str L oid, f_ord_date = order_date, f_ship_date = shipment_date,
            f_comment = lib_str L oid @ zakaz_yandex,
            f_cust_id = CUSTOMER_ID_IN_SUPPLIER_CRM cfg, f_div_id = DIVISION_ID cfg\<rparr>))))))"

text \<open>
  The loop \<open>for item in items: table.append(...)\<close> on the open table at \<open>filename\<close>. An
  exception leaves the file with the records appended before it.
\<close>

fun append_items ::
  "dbf_row pylib \<Rightarrow> export_settings \<Rightarrow> json \<Rightarrow> date option \<Rightarrow> date option \<Rightarrow> string \<Rightarrow> json list
     \<Rightarrow> export_world \<Rightarrow> (py_error + unit) \<times> export_world" where
  "append_items L cfg oid order_date shipment_date filename [] w = (Inr (), w)"
| "append_items L cfg oid order_date shipment_date filename (item # rest) w =
     (case dbf_row_of L cfg oid order_date shipment_date item of
        Inl e \<Rightarrow> (Inl e, w)
      | Inr r \<Rightarrow>
          if \<not> lib_dbf_accepts L r then (Inl DbfError, w)
          else append_items L cfg oid order_date shipment_date filename rest
                 (w\<lparr>files := (files w)(filename \<mapsto>
                       (case files w filename of None \<Rightarrow> [] | Some rs \<Rightarrow> rs) @ [r])\<rparr>))"

text \<open>
  The shipment date: \<open>shipment_data[0].get("shipmentDate") if shipment_data else None\<close>,
  parsed when it is truthy; the bare \<open>except\<close> turns every exception into \<open>None\<close>.
\<close>

definition shipment_date_of :: "dbf_row pylib \<Rightarrow> json \<Rightarrow> date option" where
  "shipment_date_of L shipment_data =
     (if truthy shipment_data then
        (case bind_err (py_first shipment_data) (\<lambda>s. py_get s ''shipmentDate'' JNull) of
           Inl e \<Rightarrow> None
         | Inr shipment_date_str \<Rightarrow>
             if truthy shipment_date_str then parse_date L ''%d-%m-%Y'' shipment_date_str
             else None)
      else None)"

text \<open>
  The reads at the top of the loop body of \<open>export_orders_to_dbf_files\<close>: the order id,
  the creation date, the shipments of the delivery and the items.
\<close>

definition order_fields :: "json \<Rightarrow> py_error + json \<times> json \<times> json \<times> json" where
  "order_fields order =
     bind_err (py_get order ''id'' JNull) (\<lambda>oid.
     bind_err (py_get order ''creationDate'' JNull) (\<lambda>order_date_str.
     bind_err (py_get order ''delivery'' (JObj [])) (\<lambda>delivery.
     bind_err (py_get delivery ''shipments'' (JArr [])) (\<lambda>shipment_data.
     bind_err (py_get order ''items'' (JArr [])) (\<lambda>its.
       Inr (oid, order_date_str, shipment_data, its))))))"

text \<open>
  The rest of the loop body for one order. \<open>dbf.Table\<close> creates the file; then the items
  are appended and the file is uploaded.
\<close>

definition export_order ::
  "dbf_row pylib \<Rightarrow> export_settings \<Rightarrow> string \<Rightarrow> json \<Rightarrow> export_world
     \<Rightarrow> (py_error + unit) \<times> export_world" where
  "export_order L cfg output_dir order w =
     (case order_fields order of
        Inl e \<Rightarrow> (Inl e, w)
      | Inr (oid, order_date_str, shipment_data, its) \<Rightarrow>
          if \<not> truthy its then (Inr (), w)
          else
            (let order_date = parse_date L ''%d-%m-%Y %H:%M:%S'' order_date_str;
                 shipment_date = shipment_date_of L shipment_data;
                 filename = path_join output_dir (lib_str L oid @ ''.dbf'')
             in if files w filename \<noteq> None then (Inr (), w)
                else
                  (let w1 = w\<lparr>files := (files w)(filename \<mapsto> [])\<rparr>
                   in case py_iter its of
                        Inl e \<Rightarrow> (Inl e, w1)
                      | Inr item_list \<Rightarrow>
                          (case append_items L cfg oid order_date shipment_date filename
                                  item_list w1 of
                             (Inl e, w2) \<Rightarrow> (Inl e, w2)
                           | (Inr u, w2) \<Rightarrow>
                               (Inr (), w2\<lparr>uploads := uploads w2 @ [filename]\<rparr>)))))"

fun export_orders_to_dbf_files ::
  "dbf_row pylib \<Rightarrow> export_settings \<Rightarrow> json list \<Rightarrow> string \<Rightarrow> export_world
     \<Rightarrow> (py_error + unit) \<times> export_world" where
  "export_orders_to_dbf_files L cfg [] output_dir w = (Inr (), w)"
| "export_orders_to_dbf_files L cfg (order # orders) output_dir w =
     (case export_order L cfg output_dir order w of
        (Inl e, w1) \<Rightarrow> (Inl e, w1)
      | (Inr u, w1) \<Rightarrow> export_orders_to_dbf_files L cfg orders output_dir w1)"


section \<open>Theorems: batching\<close>

lemma chunk_sizes_step:
  assumes "0 < n" "0 < m"
  shows "chunk_sizes m n = min n m # chunk_sizes (m - n) n"
proof (cases "m < n")
  case True
  then show ?thesis using assms by (simp add: chunk_sizes_def)
next
  case False
  then have "m div n = Suc ((m - n) div n)" "m mod n = (m - n) mod n"
    using assms by (simp_all add: le_div_geq le_mod_geq)
  then show ?thesis using False by (simp add: chunk_sizes_def)
qed

lemma chunk_sizes_0: "chunk_sizes 0 n = []"
  by (simp add: chunk_sizes_def)

lemma stocks_batches_concat:
  "0 < n \<Longrightarrow> concat (map skus (stocks_batches_from offers n i)) = map stock_sku (drop i offers)"
proof (induction offers n i rule: stocks_batches_from.induct)
  case (1 offers batch_size i)
  show ?case
  proof (cases "i < length offers")
    case True
    have "take batch_size (drop i offers) @ drop (i + batch_size) offers = drop i offers"
      by (metis add.commute append_take_drop_id drop_drop)
    then have "map stock_sku (take batch_size (drop i offers)) @ map stock_sku (drop (i + batch_size) offers)
        = map stock_sku (drop i offers)"
      by (metis map_append)
    with 1 True show ?thesis
      by (simp add: slice_def stocks_batches_from.simps[of offers batch_size i])
  next
    case False
    then show ?thesis by (simp add: stocks_batches_from.simps[of offers batch_size i])
  qed
qed

lemma stocks_batches_sizes:
  "0 < n \<Longrightarrow> map (\<lambda>b. length (skus b)) (stocks_batches_from offers n i) = chunk_sizes (length offers - i) n"
proof (induction offers n i rule: stocks_batches_from.induct)
  case (1 offers batch_size i)
  show ?case
  proof (cases "i < length offers")
    case True
    with 1 show ?thesis
      by (simp add: slice_def chunk_sizes_step[of batch_size "length offers - i"]
          stocks_batches_from.simps[of offers batch_size i])
  next
    case False
    then show ?thesis
      by (simp add: chunk_sizes_0 stocks_batches_from.simps[of offers batch_size i])
  qed
qed

lemma chunk_sizes_650_300: "chunk_sizes 650 300 = [300,300,50]"
proof -
  have "replicate 2 (300::nat) = [300, 300]" by (simp add: numeral_2_eq_2)
  then show ?thesis by (simp add: chunk_sizes_def)
qed

lemma chunk_sizes_bounds: "0 < n \<Longrightarrow> \<forall>k \<in> set (chunk_sizes m n). 1 \<le> k \<and> k \<le> n"
  by (auto simp: chunk_sizes_def intro: less_imp_le)

lemma prices_batches_concat:
  "0 < n \<Longrightarrow> concat (map offers_of (prices_batches_from offers n i)) = map price_entry_of (drop i offers)"
proof (induction offers n i rule: prices_batches_from.induct)
  case (1 offers batch_size i)
  show ?case
  proof (cases "i < length offers")
    case True
    have "take batch_size (drop i offers) @ drop (i + batch_size) offers = drop i offers"
      by (metis add.commute append_take_drop_id drop_drop)
    then have "map price_entry_of (take batch_size (drop i offers)) @ map price_entry_of (drop (i + batch_size) offers)
        = map price_entry_of (drop i offers)"
      by (metis map_append)
    with 1 True show ?thesis
      by (simp add: slice_def prices_batches_from.simps[of offers batch_size i])
  next
    case False
    then show ?thesis by (simp add: prices_batches_from.simps[of offers batch_size i])
  qed
qed

lemma prices_batches_sizes:
  "0 < n \<Longrightarrow> map (\<lambda>b. length (offers_of b)) (prices_batches_from offers n i) = chunk_sizes (length offers - i) n"
proof (induction offers n i rule: prices_batches_from.induct)
  case (1 offers batch_size i)
  show ?case
  proof (cases "i < length offers")
    case True
    with 1 show ?thesis
      by (simp add: slice_def chunk_sizes_step[of batch_size "length offers - i"]
          prices_batches_from.simps[of offers batch_size i])
  next
    case False
    then show ?thesis
      by (simp add: chunk_sizes_0 prices_batches_from.simps[of offers batch_size i])
  qed
qed

lemma sizes_bounds_transfer:
  assumes "map f bs = chunk_sizes m n" "0 < n"
  shows "\<forall>b\<in>set bs. 1 \<le> f b \<and> f b \<le> n"
proof
  fix b assume "b \<in> set bs"
  then have "f b \<in> set (map f bs)" by simp
  then have "f b \<in> set (chunk_sizes m n)" using assms(1) by simp
  then show "1 \<le> f b \<and> f b \<le> n" using chunk_sizes_bounds[OF assms(2), of m] by blast
qed

text \<open>
  Claim C9. For every offer list, \<open>prepare_batches\<close> with the batch size 300 succeeds in both
  pipelines; the batches, read in order, are exactly the offers in their order, each
  wrapped in the endpoint's shape (stocks: \<open>sku\<close> with a single \<open>count\<close> item; prices:
  \<open>offerId\<close> with \<open>value\<close>, \<open>currencyId = "RUR"\<close> and \<open>discountBase\<close>); every batch has
  between 1 and 300 entries and the sizes are those of consecutive chunks of 300; 650
  offers give the sizes 300, 300, 50.
\<close>

theorem C9_prepare_batches:
  "(\<exists>bs. stocks_prepare_batches soffers 300 = Inr bs
      \<and> concat (map skus bs) = map (\<lambda>offer. \<lparr>sku = offerId offer, items = [\<lparr>count = qua offer\<rparr>]\<rparr>) soffers
      \<and> map (\<lambda>b. length (skus b)) bs = chunk_sizes (length soffers) 300
      \<and> (\<forall>b\<in>set bs. 1 \<le> length (skus b) \<and> length (skus b) \<le> 300)
      \<and> (length soffers = 650 \<longrightarrow> map (\<lambda>b. length (skus b)) bs = [300, 300, 50]))
   \<and> (\<exists>bs. prices_prepare_batches poffers 300 = Inr bs
      \<and> concat (map offers_of bs)
          = map (\<lambda>offer. \<lparr>pe_offerId = po_offerId offer,
                           pe_price = \<lparr>pb_value = po_price offer, currencyId = ''RUR'',
                                       pb_discountBase = po_discountBase offer\<rparr>\<rparr>) poffers
      \<and> map (\<lambda>b. length (offers_of b)) bs = chunk_sizes (length poffers) 300
      \<and> (\<forall>b\<in>set bs. 1 \<le> length (offers_of b) \<and> length (offers_of b) \<le> 300)
      \<and> (length poffers = 650 \<longrightarrow> map (\<lambda>b. length (offers_of b)) bs = [300, 300, 50]))"
proof -
  let ?sb = "stocks_batches_from soffers 300 0"
  let ?pb = "prices_batches_from poffers 300 0"
  have s0: "stocks_prepare_batches soffers 300 = Inr ?sb"
    by (simp add: stocks_prepare_batches_def)
  have s1: "concat (map skus ?sb) = map stock_sku soffers"
    using stocks_batches_concat[of 300 soffers 0] by simp
  have s2: "map (\<lambda>b. length (skus b)) ?sb = chunk_sizes (length soffers) 300"
    using stocks_batches_sizes[of 300 soffers 0] by simp
  have s3: "\<forall>b\<in>set ?sb. 1 \<le> length (skus b) \<and> length (skus b) \<le> 300"
    using sizes_bounds_transfer[OF s2] by simp
  have s4: "length soffers = 650 \<longrightarrow> map (\<lambda>b. length (skus b)) ?sb = [300, 300, 50]"
    using s2 chunk_sizes_650_300 by simp
  have p0: "prices_prepare_batches poffers 300 = Inr ?pb"
    by (simp add: prices_prepare_batches_def)
  have p1: "concat (map offers_of ?pb) = map price_entry_of poffers"
    using prices_batches_concat[of 300 poffers 0] by simp
  have p2: "map (\<lambda>b. length (offers_of b)) ?pb = chunk_sizes (length poffers) 300"
    using prices_batches_sizes[of 300 poffers 0] by simp
  have p3: "\<forall>b\<in>set ?pb. 1 \<le> length (offers_of b) \<and> length (offers_of b) \<le> 300"
    using sizes_bounds_transfer[OF p2] by simp
  have p4: "length poffers = 650 \<longrightarrow> map (\<lambda>b. length (offers_of b)) ?pb = [300, 300, 50]"
    using p2 chunk_sizes_650_300 by simp
  have sw: "stock_sku = (\<lambda>offer. \<lparr>sku = offerId offer, items = [\<lparr>count = qua offer\<rparr>]\<rparr>)"
    by (rule ext) (simp add: stock_sku_def)
  have pw: "price_entry_of = (\<lambda>offer. \<lparr>pe_offerId = po_offerId offer,
                           pe_price = \<lparr>pb_value = po_price offer, currencyId = ''RUR'',
                                       pb_discountBase = po_discountBase offer\<rparr>\<rparr>)"
    by (rule ext) (simp add: price_entry_of_def)
  have S: "\<exists>bs. stocks_prepare_batches soffers 300 = Inr bs
      \<and> concat (map skus bs) = map stock_sku soffers
      \<and> map (\<lambda>b. length (skus b)) bs = chunk_sizes (length soffers) 300
      \<and> (\<forall>b\<in>set bs. 1 \<le> length (skus b) \<and> length (skus b) \<le> 300)
      \<and> (length soffers = 650 \<longrightarrow> map (\<lambda>b. length (skus b)) bs = [300, 300, 50])"
    by (rule exI[of _ ?sb], intro conjI) (rule s0, rule s1, rule s2, rule s3, rule s4)
  have P: "\<exists>bs. prices_prepare_batches poffers 300 = Inr bs
      \<and> concat (map offers_of bs) = map price_entry_of poffers
      \<and> map (\<lambda>b. length (offers_of b)) bs = chunk_sizes (length poffers) 300
      \<and> (\<forall>b\<in>set bs. 1 \<le> length (offers_of b) \<and> length (offers_of b) \<le> 300)
      \<and> (length poffers = 650 \<longrightarrow> map (\<lambda>b. length (offers_of b)) bs = [300, 300, 50])"
    by (rule exI[of _ ?pb], intro conjI) (rule p0, rule p1, rule p2, rule p3, rule p4)
  show ?thesis
    unfolding sw[symmetric] pw[symmetric] by (rule conjI[OF S P])
qed

text \<open>Witness for C9: 650 equal offers in each pipeline.\<close>

theorem C9_prepare_batches_witness:
  "length (replicate 650 \<lparr>offerId = ''sku-1'', qua = 4\<rparr>) = 650
   \<and> length (replicate 650 \<lparr>po_offerId = ''sku-1'', po_price = 200, po_discountBase = 180\<rparr>) = 650
   \<and> (\<exists>bs. stocks_prepare_batches (replicate 650 \<lparr>offerId = ''sku-1'', qua = 4\<rparr>) 300 = Inr bs
        \<and> map (\<lambda>b. length (skus b)) bs = [300, 300, 50])
   \<and> (\<exists>bs. prices_prepare_batches
               (replicate 650 \<lparr>po_offerId = ''sku-1'', po_price = 200, po_discountBase = 180\<rparr>) 300 = Inr bs
        \<and> map (\<lambda>b. length (offers_of b)) bs = [300, 300, 50])"
proof -
  let ?so = "replicate 650 \<lparr>offerId = ''sku-1'', qua = 4\<rparr>"
  let ?po = "replicate 650 \<lparr>po_offerId = ''sku-1'', po_price = 200, po_discountBase = 180\<rparr>"
  have l1: "length ?so = 650"
    by (rule length_replicate)
  have l2: "length ?po = 650"
    by (rule length_replicate)
  note both = C9_prepare_batches[of ?so ?po]
  from conjunct1[OF both] obtain sb where
    sb: "stocks_prepare_batches ?so 300 = Inr sb"
        "length ?so = 650 \<longrightarrow> map (\<lambda>b. length (skus b)) sb = [300, 300, 50]"
    by (elim exE conjE)
  from conjunct2[OF both] obtain pb where
    pb: "prices_prepare_batches ?po 300 = Inr pb"
        "length ?po = 650 \<longrightarrow> map (\<lambda>b. length (offers_of b)) pb = [300, 300, 50]"
    by (elim exE conjE)
  from sb l1 have S: "\<exists>bs. stocks_prepare_batches ?so 300 = Inr bs
        \<and> map (\<lambda>b. length (skus b)) bs = [300, 300, 50]"
    by (intro exI[of _ sb] conjI) (rule sb(1), rule mp[OF sb(2) l1])
  from pb l2 have P: "\<exists>bs. prices_prepare_batches ?po 300 = Inr bs
        \<and> map (\<lambda>b. length (offers_of b)) bs = [300, 300, 50]"
    by (intro exI[of _ pb] conjI) (rule pb(1), rule mp[OF pb(2) l2])
  show ?thesis
    by (intro conjI) (rule l1, rule l2, rule S, rule P)
qed

section \<open>Theorems: the stand-in response\<close>

lemma send_request_loop_first:
  "attempt < max_attempts \<Longrightarrow>
   send_request_loop url headers body max_attempts attempt w = (Some [(''message'', testovyj_otvet)], w)"
  by (simp add: FakeResponse_def send_request_loop.simps[of url headers body max_attempts attempt w])

lemma requests_append: "requests (w @ v) = requests w @ requests v"
  by (induction w rule: requests.induct) simp_all

lemma sleeps_append: "sleeps (w @ v) = sleeps w @ sleeps v"
  by (induction w rule: sleeps.induct) simp_all

lemma requests_replicate_Sleep: "requests (replicate n (Sleep d)) = []"
  by (induction n) simp_all

lemma stocks_send_batches_all:
  "stocks_send_batches url headers batches w =
     (replicate (length batches) (Some [(''message'', testovyj_otvet)]),
      w @ replicate (length batches) (Sleep 1))"
proof (induction batches arbitrary: w)
  case Nil
  then show ?case by simp
next
  case (Cons b bs)
  show ?case
    by (simp add: Cons.IH stocks_send_request_with_retries_def send_request_loop_first)
qed

lemma prices_send_batches_all:
  "prices_send_batches url headers batches w =
     (replicate (length batches) (Some [(''message'', testovyj_otvet)]),
      w @ replicate (length batches) (Sleep 1))"
proof (induction batches arbitrary: w)
  case Nil
  then show ?case by simp
next
  case (Cons b bs)
  show ?case
    by (simp add: Cons.IH prices_send_request_with_retries_def send_request_loop_first)
qed

text \<open>
  Claim C2. In both pipelines \<open>send_request_with_retries\<close> with the default three attempts
  returns the body of the stand-in response (status 200, body
  \<open>{"message": "Testovyj otvet"}\<close> in UTF-8) on its first attempt and leaves the world
  unchanged: no live request is issued and nothing is slept. Hence \<open>update_stocks\<close> and
  \<open>update_prices\<close> return one present result per batch, and issue no request.
\<close>

theorem C2_stand_in_response:
  "stocks_send_request_with_retries url headers body 3 w = (Some [(''message'', testovyj_otvet)], w)
   \<and> prices_send_request_with_retries url' headers' body' 3 w' = (Some [(''message'', testovyj_otvet)], w')
   \<and> status_code (FakeResponse 200 None) = 200
   \<and> json_body (FakeResponse 200 None) = [(''message'', testovyj_otvet)]
   \<and> (\<exists>batches. stocks_prepare_batches soffers 300 = Inr batches
        \<and> fst (update_stocks api_token campaign_id soffers sw)
            = Inr (replicate (length batches) (Some [(''message'', testovyj_otvet)]))
        \<and> requests (snd (update_stocks api_token campaign_id soffers sw)) = requests sw)
   \<and> (\<exists>batches. prices_prepare_batches poffers 300 = Inr batches
        \<and> fst (update_prices api_token business_id poffers pw)
            = Inr (replicate (length batches) (Some [(''message'', testovyj_otvet)]))
        \<and> requests (snd (update_prices api_token business_id poffers pw)) = requests pw)"
  by (simp add: stocks_send_request_with_retries_def prices_send_request_with_retries_def
      send_request_loop_first FakeResponse_def update_stocks_def update_prices_def
      stocks_prepare_batches_def prices_prepare_batches_def stocks_send_batches_all
      prices_send_batches_all requests_append requests_replicate_Sleep)

section \<open>Theorems: float64 arithmetic\<close>

text \<open>
  Below \<open>2 ^ 53\<close> in magnitude the spacing of the binary64 numbers is at most 1, so
  rounding moves a number by at most one half and the result is finite.
\<close>

lemma log2_up_le: "x < 2 ^ Suc n \<Longrightarrow> log2_up x \<le> n"
proof (induction n arbitrary: x)
  case 0
  then show ?case by (subst log2_up.simps) simp
next
  case (Suc n)
  show ?case
  proof (cases "2 \<le> x")
    case True
    from Suc.prems have "x / 2 < 2 ^ Suc n" by simp
    then have "log2_up (x / 2) \<le> n" by (rule Suc.IH)
    with True show ?thesis by (subst log2_up.simps) simp
  next
    case False
    then show ?thesis by (subst log2_up.simps) simp
  qed
qed

lemma exponent_le: "x < 2 ^ Suc n \<Longrightarrow> exponent x \<le> int n"
  using log2_up_le[of x n] by (simp add: exponent_def)

lemma pow2_pos: "0 < pow2 e"
  by (simp add: pow2_def)

lemma pow2_le_one: "e \<le> 0 \<Longrightarrow> pow2 e \<le> 1"
  by (simp add: pow2_def)

lemma ulp_pos: "0 < ulp x"
  by (simp add: ulp_def pow2_pos)

lemma ulp_le_one: "\<bar>x\<bar> < 2 ^ 53 \<Longrightarrow> ulp x \<le> 1"
proof -
  assume "\<bar>x\<bar> < 2 ^ 53"
  then have "\<bar>x\<bar> < 2 ^ Suc 52" by simp
  then have "exponent \<bar>x\<bar> \<le> 52" using exponent_le[of "\<bar>x\<bar>" 52] by simp
  then have "max (exponent \<bar>x\<bar>) (- 1022) - 52 \<le> 0" by simp
  then show ?thesis unfolding ulp_def by (rule pow2_le_one)
qed

lemma round_half_even_near: "\<bar>of_int (round_half_even y) - y\<bar> \<le> 1 / 2"
proof -
  have "of_int \<lfloor>y\<rfloor> \<le> y" "y < of_int \<lfloor>y\<rfloor> + 1" by linarith+
  then show ?thesis
    by (auto simp: round_half_even_def Let_def)
qed

lemma round_double_near:
  assumes "\<bar>x\<bar> < 2 ^ 53"
  shows "\<bar>round_double x - x\<bar> \<le> 1 / 2"
proof (cases "x = 0")
  case True
  then show ?thesis by (simp add: round_double_def)
next
  case False
  let ?u = "ulp x"
  have u: "0 < ?u" "?u \<le> 1" using ulp_pos ulp_le_one[OF assms] by simp_all
  have "round_double x - x = (of_int (round_half_even (x / ?u)) - x / ?u) * ?u"
    using False u by (simp add: round_double_def algebra_simps)
  then have "\<bar>round_double x - x\<bar> = \<bar>of_int (round_half_even (x / ?u)) - x / ?u\<bar> * ?u"
    using u by (simp add: abs_mult)
  also have "\<dots> \<le> (1 / 2) * 1"
    using round_half_even_near[of "x / ?u"] u by (intro mult_mono) simp_all
  finally show ?thesis by simp
qed

lemma double_of_rat_fin:
  assumes "\<bar>x\<bar> < 2 ^ 53"
  shows "double_of_rat x = Fin (round_double x)"
proof -
  have "(2::rat) ^ 53 \<le> 2 ^ 1024 - 2 ^ 970" by simp
  with assms show ?thesis by (simp add: double_of_rat_def)
qed

lemma round_double_bound:
  assumes "\<bar>x\<bar> \<le> B" "B < 2 ^ 53"
  shows "\<bar>round_double x\<bar> \<le> B + 1 / 2"
proof -
  from assms have "\<bar>x\<bar> < 2 ^ 53" by simp
  from round_double_near[OF this] assms(1) show ?thesis by linarith
qed


lemma floor_rat_numeral: "\<lfloor>numeral a / numeral b :: rat\<rfloor> = numeral a div numeral b"
  by (metis floor_divide_of_int_eq of_int_numeral)


lemmas round_double_eval = round_double_def ulp_def exponent_def log2_up.simps log2_down.simps
  pow2_def round_half_even_def Let_def floor_rat_numeral

section \<open>Theorems: the quantity sheet\<close>

lemma sequence_err_all:
  "(\<forall>x\<in>set xs. f x = Inr (g x)) \<Longrightarrow> sequence_err (map f xs) = Inr (map g xs)"
  by (induction xs) simp_all

lemma zip_map_same: "map (\<lambda>(a, b). h a b) (zip (map f xs) (map g xs)) = map (\<lambda>x. h (f x) (g x)) xs"
  by (induction xs) simp_all

lemma trunc_abs_le: "\<bar>of_int (trunc r) :: rat\<bar> \<le> \<bar>r\<bar>"
proof (cases "0 \<le> r")
  case True
  then have "0 \<le> \<lfloor>r\<rfloor>" by simp
  moreover have "of_int \<lfloor>r\<rfloor> \<le> r" by simp
  ultimately show ?thesis using True by (simp add: trunc_def)
next
  case False
  then have "\<lceil>r\<rceil> \<le> 0" by (simp add: ceiling_le_iff)
  moreover have "r \<le> of_int \<lceil>r\<rceil>" by simp
  ultimately show ?thesis using False by (simp add: trunc_def)
qed

lemma int64_wrap_id: "in_int64 n \<Longrightarrow> int64_wrap n = n"
  by (simp add: in_int64_def int64_wrap_def)

lemma quantity_in_range:
  assumes "\<bar>q\<bar> \<le> 10 ^ 15"
  shows "float64_to_int64 (double_of_rat q) = Inr (trunc (round_double q))"
proof -
  have b: "(10::rat) ^ 15 < 2 ^ 53" by simp
  from assms b have d: "double_of_rat q = Fin (round_double q)"
    by (intro double_of_rat_fin) simp
  have "\<bar>round_double q\<bar> \<le> 10 ^ 15 + 1 / 2"
    using assms b by (rule round_double_bound)
  with trunc_abs_le[of "round_double q"]
  have "\<bar>of_int (trunc (round_double q)) :: rat\<bar> \<le> of_int (10 ^ 15 + 1)" by simp
  then have "\<bar>trunc (round_double q)\<bar> \<le> 10 ^ 15 + 1"
    unfolding of_int_abs[symmetric] by (simp only: of_int_le_iff)
  then have "in_int64 (trunc (round_double q))" unfolding in_int64_def by simp linarith
  then show ?thesis by (simp add: d float64_to_int64_def int64_wrap_id)
qed

lemma round_double_0: "round_double 0 = 0"
  by (simp add: round_double_def)

text \<open>
  Outside the int64 range the cast wraps around: a sheet whose only quantity is
  \<open>10 ^ 19\<close> yields \<open>10 ^ 19 - 2 ^ 64\<close>.
\<close>

lemma quantity_out_of_range:
  "stocks_prepare_offers_data str_to_int id
     \<lparr>columns = [col_Artikul, col_Kolichestvo],
      rows = [\<lparr>s_Artikul = ''A1'', s_Kolichestvo = Num (10 ^ 19)\<rparr>]\<rparr>
   = Inr [\<lparr>offerId = ''A1'', qua = - 8446744073709551616\<rparr>]"
proof -
  have r: "round_double 10000000000000000000 = 10000000000000000000"
    by (simp add: round_double_eval)
  have d: "double_of_rat 10000000000000000000 = Fin 10000000000000000000"
    by (simp add: double_of_rat_def r)
  show ?thesis
    by (simp add: stocks_prepare_offers_data_def astype_int_def fillna_xl_def is_text_def
        float64_to_int64_def d trunc_def int64_wrap_def)
qed

text \<open>
  Claim C8, amended. For every quantity sheet with both required columns whose quantity
  cells are blank or hold a number of magnitude at most \<open>10 ^ 15\<close>,
  \<open>prepare_offers_data\<close> of the stock pipeline returns one record per row, in the sheet's
  order: \<open>offerId\<close> is the SKU cell coerced to text and the quantity (key \<open>qua\<close> in the
  source) is the number of the cell, as float64, truncated toward zero, and 0 for a blank
  cell. If a required column is missing it raises ValueError.
\<close>

theorem C8_stock_offers_amended:
  "({col_Artikul, col_Kolichestvo} \<subseteq> set (columns df_products)
      \<and> (\<forall>row\<in>set (rows df_products).
            case s_Kolichestvo row of
              Blank \<Rightarrow> True | Num q \<Rightarrow> \<bar>q\<bar> \<le> 10 ^ 15 | Text t \<Rightarrow> False) \<longrightarrow>
      stocks_prepare_offers_data str_to_int astype_str df_products
        = Inr (map (\<lambda>row. \<lparr>offerId = astype_str (s_Artikul row),
                             qua = (case s_Kolichestvo row of
                                      Blank \<Rightarrow> 0
                                    | Num q \<Rightarrow> trunc (round_double q)
                                    | Text t \<Rightarrow> 0)\<rparr>)
                   (rows df_products)))
   \<and> (\<not> {col_Artikul, col_Kolichestvo} \<subseteq> set (columns df_products) \<longrightarrow>
      stocks_prepare_offers_data str_to_int astype_str df_products = Inl ValueError)"
proof (intro conjI impI)
  assume h: "{col_Artikul, col_Kolichestvo} \<subseteq> set (columns df_products)
      \<and> (\<forall>row\<in>set (rows df_products).
            case s_Kolichestvo row of
              Blank \<Rightarrow> True | Num q \<Rightarrow> \<bar>q\<bar> \<le> 10 ^ 15 | Text t \<Rightarrow> False)"
  let ?cells = "map (\<lambda>row. fillna_xl (s_Kolichestvo row) 0) (rows df_products)"
  let ?val = "\<lambda>row. case s_Kolichestvo row of
                       Blank \<Rightarrow> 0 | Num q \<Rightarrow> trunc (round_double q) | Text t \<Rightarrow> 0"
  have nt: "\<not> list_ex is_text ?cells"
    using h by (auto simp: list_ex_iff is_text_def fillna_xl_def split: xl.splits)
  have cell: "float64_to_int64 (case fillna_xl (s_Kolichestvo row) 0 of
                                   Num q \<Rightarrow> double_of_rat q | _ \<Rightarrow> NaN) = Inr (?val row)"
    if "row \<in> set (rows df_products)" for row
  proof (cases "s_Kolichestvo row")
    case Blank
    have "float64_to_int64 (double_of_rat 0) = Inr (trunc (round_double 0))"
      by (rule quantity_in_range) simp
    with Blank show ?thesis by (simp add: fillna_xl_def round_double_0 trunc_def)
  next
    case (Num q)
    with h that have "\<bar>q\<bar> \<le> 10 ^ 15" by force
    from quantity_in_range[OF this] Num show ?thesis by (simp add: fillna_xl_def)
  next
    case (Text t)
    with h that show ?thesis by force
  qed
  have "astype_int str_to_int ?cells
      = sequence_err (map (\<lambda>row. float64_to_int64 (case fillna_xl (s_Kolichestvo row) 0 of
                                   Num q \<Rightarrow> double_of_rat q | _ \<Rightarrow> NaN)) (rows df_products))"
    using nt by (simp add: astype_int_def comp_def)
  also have "\<dots> = Inr (map ?val (rows df_products))"
    by (rule sequence_err_all) (simp add: cell)
  finally have a: "astype_int str_to_int ?cells = Inr (map ?val (rows df_products))" .
  from h show "stocks_prepare_offers_data str_to_int astype_str df_products
        = Inr (map (\<lambda>row. \<lparr>offerId = astype_str (s_Artikul row), qua = ?val row\<rparr>)
                   (rows df_products))"
    by (simp add: stocks_prepare_offers_data_def a zip_map_same)
next
  assume "\<not> {col_Artikul, col_Kolichestvo} \<subseteq> set (columns df_products)"
  then show "stocks_prepare_offers_data str_to_int astype_str df_products = Inl ValueError"
    by (simp add: stocks_prepare_offers_data_def)
qed

text \<open>
  Witness for C8: three rows, the second with a blank quantity, the third with 3.5; and a
  sheet without the quantity column.
\<close>

theorem C8_stock_offers_amended_witness:
  "{col_Artikul, col_Kolichestvo} \<subseteq> set [col_Artikul, col_Kolichestvo]
   \<and> stocks_prepare_offers_data (map_of []) id
        \<lparr>columns = [col_Artikul, col_Kolichestvo],
         rows = [\<lparr>s_Artikul = ''A1'', s_Kolichestvo = Num 5\<rparr>,
                 \<lparr>s_Artikul = ''B2'', s_Kolichestvo = Blank\<rparr>,
                 \<lparr>s_Artikul = ''C3'', s_Kolichestvo = Num (7 / 2)\<rparr>]\<rparr>
      = Inr [\<lparr>offerId = ''A1'', qua = 5\<rparr>, \<lparr>offerId = ''B2'', qua = 0\<rparr>, \<lparr>offerId = ''C3'', qua = 3\<rparr>]
   \<and> \<not> {col_Artikul, col_Kolichestvo} \<subseteq> set [col_Artikul]
   \<and> stocks_prepare_offers_data (map_of []) id
        \<lparr>columns = [col_Artikul], rows = [\<lparr>s_Artikul = ''A1'', s_Kolichestvo = Num 5\<rparr>]\<rparr>
      = Inl ValueError"
proof -
  let ?S = "\<lparr>columns = [col_Artikul, col_Kolichestvo],
         rows = [\<lparr>s_Artikul = ''A1'', s_Kolichestvo = Num 5\<rparr>,
                 \<lparr>s_Artikul = ''B2'', s_Kolichestvo = Blank\<rparr>,
                 \<lparr>s_Artikul = ''C3'', s_Kolichestvo = Num (7 / 2)\<rparr>]\<rparr>"
  let ?T = "\<lparr>columns = [col_Artikul], rows = [\<lparr>s_Artikul = ''A1'', s_Kolichestvo = Num 5\<rparr>]\<rparr>"
  have r: "round_double 5 = 5" "round_double (7 / 2) = 7 / 2"
    by (simp_all add: round_double_eval)
  have t: "trunc 5 = 5" "trunc (7 / 2) = 3"
    by (simp_all add: trunc_def floor_rat_numeral)
  have A: "stocks_prepare_offers_data (map_of []) id ?S
      = Inr [\<lparr>offerId = ''A1'', qua = 5\<rparr>, \<lparr>offerId = ''B2'', qua = 0\<rparr>, \<lparr>offerId = ''C3'', qua = 3\<rparr>]"
    using C8_stock_offers_amended[of ?S "map_of []" id, THEN conjunct1]
    by (simp add: r t)
  have B: "stocks_prepare_offers_data (map_of []) id ?T = Inl ValueError"
    using C8_stock_offers_amended[of ?T "map_of []" id, THEN conjunct2]
    by (simp add: col_Artikul_def col_Kolichestvo_def)
  have n: "\<not> {col_Artikul, col_Kolichestvo} \<subseteq> set [col_Artikul]"
    by (simp add: col_Artikul_def col_Kolichestvo_def)
  from A B n show ?thesis by simp
qed

text \<open>
  Counterexample to C8 as stated: a sheet with both required columns whose quantity cell
  holds the text \<open>abc\<close>, which Python's \<open>int\<close> refuses. The function raises ValueError
  although no column is missing, and returns no record.
\<close>

theorem C8_stock_offers_counterexample:
  "{col_Artikul, col_Kolichestvo} \<subseteq> set [col_Artikul, col_Kolichestvo]
   \<and> stocks_prepare_offers_data (map_of []) id
        \<lparr>columns = [col_Artikul, col_Kolichestvo],
         rows = [\<lparr>s_Artikul = ''A1'', s_Kolichestvo = Text ''abc''\<rparr>]\<rparr>
      = Inl ValueError"
  by (simp add: stocks_prepare_offers_data_def astype_int_def fillna_xl_def is_text_def
      object_to_int64_def)

section \<open>Theorems: the price computation\<close>











section \<open>Theorems: retrying the status update\<close>



lemma send_status_loop_ok:
  assumes "attempt \<le> max_retries" "server (length (requests w)) = Status 200"
  shows "send_status_loop server url payload max_retries retry_delay attempt w
     = (Inr (Some True), w @ [Request url payload])"
  using assms by (subst send_status_loop.simps) (simp add: Let_def)


text \<open>
  A negative delay: after a retryable status the function gives up with \<open>False\<close> after
  the request, and after a \<open>RequestException\<close> the ValueError of \<open>time.sleep\<close> leaves it.
\<close>

lemma send_status_loop_negative_delay:
  assumes "attempt < max_retries" "retry_delay * attempt < 0"
  shows "server (length (requests w)) = Status code \<Longrightarrow> code \<in> {429, 500, 502, 503, 504} \<Longrightarrow>
         send_status_loop server url payload max_retries retry_delay attempt w
           = (Inr (Some False), w @ [Request url payload])"
    and "server (length (requests w)) = RequestException \<Longrightarrow>
         send_status_loop server url payload max_retries retry_delay attempt w
           = (Inl ValueError, w @ [Request url payload])"
proof -
  show "send_status_loop server url payload max_retries retry_delay attempt w
           = (Inr (Some False), w @ [Request url payload])"
    if "server (length (requests w)) = Status code" "code \<in> {429, 500, 502, 503, 504}"
  proof -
    from that(2) have "code \<noteq> 200" by auto
    with assms that show ?thesis
      by (subst send_status_loop.simps) (simp add: Let_def)
  qed
  show "send_status_loop server url payload max_retries retry_delay attempt w
           = (Inl ValueError, w @ [Request url payload])"
    if "server (length (requests w)) = RequestException"
    using assms that by (subst send_status_loop.simps) (simp add: Let_def)
qed


section \<open>Theorems: removal of duplicate orders\<close>

lemma drop_duplicates_keys:
  "set (map key (drop_duplicates_from key seen rs)) = set (map key rs) - set seen
   \<and> distinct (map key (drop_duplicates_from key seen rs))"
proof (induction rs arbitrary: seen)
  case Nil
  then show ?case by simp
next
  case (Cons r rs)
  show ?case
  proof (cases "key r \<in> set seen")
    case True
    with Cons[of seen] show ?thesis by auto
  next
    case False
    with Cons[of "key r # seen"] show ?thesis by auto
  qed
qed

lemma drop_duplicates_first:
  "r \<in> set (drop_duplicates_from key seen rs) \<Longrightarrow> find (\<lambda>x. key x = key r) rs = Some r"
proof (induction rs arbitrary: seen)
  case Nil
  then show ?case by simp
next
  case (Cons x xs)
  show ?case
  proof (cases "key x \<in> set seen")
    case True
    with Cons.prems have in_rest: "r \<in> set (drop_duplicates_from key seen xs)" by simp
    then have "key r \<in> set (map key (drop_duplicates_from key seen xs))" by simp
    then have "key r \<notin> set seen" using drop_duplicates_keys[of key seen xs] by blast
    with True have "key x \<noteq> key r" by auto
    with Cons.IH[OF in_rest] show ?thesis by simp
  next
    case False
    with Cons.prems have "r = x \<or> r \<in> set (drop_duplicates_from key (key x # seen) xs)" by simp
    then show ?thesis
    proof
      assume "r = x"
      then show ?thesis by simp
    next
      assume in_rest: "r \<in> set (drop_duplicates_from key (key x # seen) xs)"
      then have "key r \<in> set (map key (drop_duplicates_from key (key x # seen) xs))" by simp
      then have "key r \<notin> set (key x # seen)"
        using drop_duplicates_keys[of key "key x # seen" xs] by blast
      then have "key x \<noteq> key r" by auto
      with Cons.IH[OF in_rest] show ?thesis by simp
    qed
  qed
qed

lemma drop_duplicates_positions:
  "drop_duplicates_from key seen rs
     = map (\<lambda>i. rs ! i)
         (filter (\<lambda>i. key (rs ! i) \<notin> set seen \<union> key ` set (take i rs)) [0..<length rs])"
proof (induction rs arbitrary: seen)
  case Nil
  then show ?case by simp
next
  case (Cons r rs)
  have upt: "[0..<length (r # rs)] = 0 # map Suc [0..<length rs]"
    by (simp add: upt_conv_Cons map_Suc_upt del: upt_Suc)
  show ?case
  proof (cases "key r \<in> set seen")
    case True
    then have P: "(k \<notin> set seen \<and> k \<noteq> key r \<and> X) = (k \<notin> set seen \<and> X)" for k X
      by auto
    from True show ?thesis
      unfolding upt by (simp add: Cons.IH[of seen] filter_map comp_def P)
  next
    case False
    have "set seen \<union> insert (key r) A = set (key r # seen) \<union> A" for A by auto
    with False show ?thesis
      unfolding upt by (simp add: Cons.IH[of "key r # seen"] filter_map comp_def conj_ac)
  qed
qed

lemma extract_unique_orders_rows:
  assumes "''HDRTAG2'' \<in> set (columns df)"
  shows "extract_unique_orders df
     = Some (df\<lparr>rows := drop_duplicates_from (\<lambda>row. row_get row ''HDRTAG2'') [] (rows df)\<rparr>)"
proof (cases "df_empty df")
  case True
  with assms have r: "rows df = []" by (auto simp: df_empty_def)
  then have "df\<lparr>rows := drop_duplicates_from (\<lambda>row. row_get row ''HDRTAG2'') [] (rows df)\<rparr> = df"
    by (cases df) simp
  with True show ?thesis by (simp add: extract_unique_orders_def)
next
  case False
  with assms show ?thesis by (simp add: extract_unique_orders_def)
qed

text \<open>
  Claim C3. For every merged table that has the column HDRTAG2, \<open>extract_unique_orders\<close>
  returns the table with the same columns whose rows are exactly the rows at the positions
  where a key occurs for the first time, in their original order. So the keys of the result
  are pairwise distinct, every key of the table is kept, and each kept row is the first row
  of the table that bears its key.
\<close>

theorem C3_extract_unique_orders:
  assumes "''HDRTAG2'' \<in> set (columns df)"
  shows "\<exists>u. extract_unique_orders df = Some u
     \<and> columns u = columns df
     \<and> rows u = map (\<lambda>i. rows df ! i)
                  (filter (\<lambda>i. row_get (rows df ! i) ''HDRTAG2''
                                 \<notin> (\<lambda>row. row_get row ''HDRTAG2'') ` set (take i (rows df)))
                     [0..<length (rows df)])
     \<and> distinct (map (\<lambda>row. row_get row ''HDRTAG2'') (rows u))
     \<and> set (map (\<lambda>row. row_get row ''HDRTAG2'') (rows u))
         = set (map (\<lambda>row. row_get row ''HDRTAG2'') (rows df))
     \<and> (\<forall>r\<in>set (rows u).
           find (\<lambda>x. row_get x ''HDRTAG2'' = row_get r ''HDRTAG2'') (rows df) = Some r)"
proof -
  let ?key = "\<lambda>row. row_get row ''HDRTAG2''"
  let ?u = "df\<lparr>rows := drop_duplicates_from ?key [] (rows df)\<rparr>"
  have e: "extract_unique_orders df = Some ?u"
    using assms by (rule extract_unique_orders_rows)
  have c: "columns ?u = columns df" by simp
  have p: "rows ?u = map (\<lambda>i. rows df ! i)
                  (filter (\<lambda>i. ?key (rows df ! i) \<notin> ?key ` set (take i (rows df)))
                     [0..<length (rows df)])"
    using drop_duplicates_positions[of ?key "[]" "rows df"] by simp
  have d: "distinct (map ?key (rows ?u))"
    using drop_duplicates_keys[of ?key "[]" "rows df"] by simp
  have s: "set (map ?key (rows ?u)) = set (map ?key (rows df))"
    using drop_duplicates_keys[of ?key "[]" "rows df"] by simp
  have f: "\<forall>r\<in>set (rows ?u). find (\<lambda>x. ?key x = ?key r) (rows df) = Some r"
    using drop_duplicates_first[of _ ?key "[]" "rows df"] by simp
  show ?thesis
    by (rule exI[of _ ?u], intro conjI) (rule e, rule c, rule p, rule d, rule s, rule f)
qed

section \<open>Theorems: the status update as a whole\<close>

lemma build_order_payload_ids:
  "build_order_payload parse rs st sub = (orders, ids) \<Longrightarrow>
   map ou_id orders = ids \<and> (\<forall>ou\<in>set orders. ou_status ou = st \<and> ou_substatus ou = sub)"
proof (induction rs arbitrary: orders ids)
  case Nil
  then show ?case by simp
next
  case (Cons r rs)
  obtain os1 ids1 where rest: "build_order_payload parse rs st sub = (os1, ids1)"
    by (cases "build_order_payload parse rs st sub")
  from Cons.IH[OF rest] have ih: "map ou_id os1 = ids1"
    "\<forall>ou\<in>set os1. ou_status ou = st \<and> ou_substatus ou = sub" by simp_all
  show ?case
  proof (cases "py_int parse (row_get r ''HDRTAG2'')")
    case None
    with Cons.prems rest ih show ?thesis by simp
  next
    case (Some n)
    with Cons.prems rest ih show ?thesis by auto
  qed
qed

lemma send_status_loop_success:
  "send_status_loop server url payload max_retries retry_delay attempt w = (Inr (Some True), w') \<Longrightarrow>
   (\<exists>n. requests w' = requests w @ replicate (Suc n) (url, payload))
   \<and> server (length (requests w') - 1) = Status 200"
proof (induction server url payload max_retries retry_delay attempt w
    rule: send_status_loop.induct)
  case (1 server url payload max_retries retry_delay attempt w)
  let ?w1 = "w @ [Request url payload]"
  let ?w2 = "?w1 @ [Sleep (retry_delay * attempt)]"
  have rq: "requests ?w1 = requests w @ [(url, payload)]" "requests ?w2 = requests w @ [(url, payload)]"
    by (simp_all add: requests_append)
  from "1.prems" have le: "attempt \<le> max_retries"
    by (subst (asm) send_status_loop.simps) (simp split: if_splits)
  show ?case
  proof (cases "server (length (requests w))")
    case (Status code)
    show ?thesis
    proof (cases "code = 200")
      case True
      with "1.prems" le Status have "w' = ?w1"
        by (subst (asm) send_status_loop.simps) (simp add: Let_def)
      with Status True rq show ?thesis
        by (auto intro: exI[of _ 0])
    next
      case False
      show ?thesis
      proof (cases "code \<in> {429, 500, 502, 503, 504} \<and> attempt < max_retries
                    \<and> \<not> retry_delay * attempt < 0")
        case True
        with "1.prems" le Status False
        have rec: "send_status_loop server url payload max_retries retry_delay (attempt + 1) ?w2
            = (Inr (Some True), w')"
          by (subst (asm) send_status_loop.simps) (simp add: Let_def)
        from True False le Status
        have "(\<exists>n. requests w' = requests ?w2 @ replicate (Suc n) (url, payload))
            \<and> server (length (requests w') - 1) = Status 200"
          by (intro "1.IH"(1)[OF _ refl refl _ _ _ _ _ rec]) auto
        then obtain n where n: "requests w' = requests ?w2 @ replicate (Suc n) (url, payload)"
          and ok: "server (length (requests w') - 1) = Status 200" by blast
        from n rq have "requests w' = requests w @ replicate (Suc (Suc n)) (url, payload)"
          by simp
        with ok show ?thesis by blast
      next
        case nr: False
        with "1.prems" le Status False have "False"
          by (subst (asm) send_status_loop.simps) (auto simp: Let_def split: if_splits)
        then show ?thesis ..
      qed
    qed
  next
    case RequestException
    show ?thesis
    proof (cases "attempt < max_retries \<and> \<not> retry_delay * attempt < 0")
      case True
      with "1.prems" le RequestException
      have rec: "send_status_loop server url payload max_retries retry_delay (attempt + 1) ?w2
          = (Inr (Some True), w')"
        by (subst (asm) send_status_loop.simps) (simp add: Let_def)
      from True le RequestException
      have "(\<exists>n. requests w' = requests ?w2 @ replicate (Suc n) (url, payload))
          \<and> server (length (requests w') - 1) = Status 200"
        by (intro "1.IH"(2)[OF _ refl refl _ _ _ rec]) auto
      then obtain n where n: "requests w' = requests ?w2 @ replicate (Suc n) (url, payload)"
        and ok: "server (length (requests w') - 1) = Status 200" by blast
      from n rq have "requests w' = requests w @ replicate (Suc (Suc n)) (url, payload)"
        by simp
      with ok show ?thesis by blast
    next
      case False
      with "1.prems" le RequestException have "False"
        by (subst (asm) send_status_loop.simps) (auto simp: Let_def split: if_splits)
      then show ?thesis ..
    qed
  next
    case OtherException
    with "1.prems" le have "False"
      by (subst (asm) send_status_loop.simps) (simp add: Let_def)
    then show ?thesis ..
  qed
qed

lemma send_status_loop_returns:
  "0 \<le> retry_delay \<Longrightarrow> 0 \<le> attempt \<Longrightarrow>
   \<exists>s w'. send_status_loop server url payload max_retries retry_delay attempt w = (Inr s, w')"
proof (induction server url payload max_retries retry_delay attempt w
    rule: send_status_loop.induct)
  case (1 server url payload max_retries retry_delay attempt w)
  let ?w1 = "w @ [Request url payload]"
  let ?w2 = "?w1 @ [Sleep (retry_delay * attempt)]"
  from "1.prems" have nn: "\<not> retry_delay * attempt < 0" by (simp add: not_less)
  show ?case
  proof (cases "attempt \<le> max_retries")
    case False
    then show ?thesis by (subst send_status_loop.simps) simp
  next
    case le: True
    show ?thesis
    proof (cases "server (length (requests w))")
      case (Status code)
      show ?thesis
      proof (cases "code \<noteq> 200 \<and> code \<in> {429, 500, 502, 503, 504} \<and> attempt < max_retries")
        case True
        with le Status nn "1.prems"
        have "\<exists>s w'. send_status_loop server url payload max_retries retry_delay (attempt + 1) ?w2
                 = (Inr s, w')"
          by (intro "1.IH"(1)[OF _ refl refl]) auto
        moreover from True le Status nn
        have "send_status_loop server url payload max_retries retry_delay attempt w
            = send_status_loop server url payload max_retries retry_delay (attempt + 1) ?w2"
          by (subst send_status_loop.simps) (simp add: Let_def)
        ultimately show ?thesis by simp
      next
        case False
        with le Status show ?thesis
          by (subst send_status_loop.simps) (auto simp: Let_def)
      qed
    next
      case RequestException
      show ?thesis
      proof (cases "attempt < max_retries")
        case True
        with le RequestException nn "1.prems"
        have "\<exists>s w'. send_status_loop server url payload max_retries retry_delay (attempt + 1) ?w2
                 = (Inr s, w')"
          by (intro "1.IH"(2)[OF _ refl refl]) auto
        moreover from True le RequestException nn
        have "send_status_loop server url payload max_retries retry_delay attempt w
            = send_status_loop server url payload max_retries retry_delay (attempt + 1) ?w2"
          by (subst send_status_loop.simps) (simp add: Let_def)
        ultimately show ?thesis by simp
      next
        case False
        with le RequestException show ?thesis
          by (subst send_status_loop.simps) (simp add: Let_def)
      qed
    next
      case OtherException
      with le show ?thesis
        by (subst send_status_loop.simps) (simp add: Let_def)
    qed
  qed
qed

text \<open>
  Claim C4. For a table without the column HDRTAG2, \<open>update_order_statuses\<close> returns the
  absent result and leaves the world unchanged: no request is issued. For a table with the
  column, let \<open>orders\<close> and \<open>ids_sent\<close> be built from the de-duplicated rows; the ids are
  those of the orders. With no order to send the result is the empty list and the world is
  unchanged. Otherwise the result is \<open>ids_sent\<close> exactly when the send step returns
  \<open>True\<close>, and absent when it returns anything else; the send step returns whenever the
  delay is not negative, and an exception that leaves it leaves this function; and when
  the send step returns \<open>True\<close>, the payload with these orders was posted and the server
  answered the last request with 200.
\<close>

theorem C4_update_order_statuses:
  "(''HDRTAG2'' \<notin> set (columns df) \<longrightarrow>
      update_order_statuses server parse df campaign_id headers max_retries retry_delay w
        = (Inr None, w))
   \<and> (''HDRTAG2'' \<in> set (columns df) \<longrightarrow>
      (\<exists>orders ids_sent.
         build_order_payload parse
             (drop_duplicates_from (\<lambda>row. row_get row ''HDRTAG2'') [] (rows df))
             ''PROCESSING'' ''READY_TO_SHIP'' = (orders, ids_sent)
         \<and> map ou_id orders = ids_sent
         \<and> (orders = [] \<longrightarrow>
              update_order_statuses server parse df campaign_id headers max_retries retry_delay w
                = (Inr (Some []), w))
         \<and> (orders \<noteq> [] \<longrightarrow>
              (\<exists>success w'.
                 send_status_update_request server orders campaign_id headers max_retries retry_delay w
                   = (success, w')
                 \<and> update_order_statuses server parse df campaign_id headers max_retries retry_delay w
                     = (case success of
                          Inl e \<Rightarrow> Inl e
                        | Inr s \<Rightarrow> Inr (if s = Some True then Some ids_sent else None), w')
                 \<and> (0 \<le> retry_delay \<longrightarrow> (\<exists>s. success = Inr s))
                 \<and> (success = Inr (Some True) \<longrightarrow>
                      (\<exists>n. requests w'
                            = requests w
                              @ replicate (Suc n)
                                  (''https://api.partner.market.yandex.ru/campaigns/'' @ campaign_id
                                   @ ''/orders/status-update'', orders))
                      \<and> server (length (requests w') - 1) = Status 200)))))"
proof (intro conjI impI)
  assume "''HDRTAG2'' \<notin> set (columns df)"
  then show "update_order_statuses server parse df campaign_id headers max_retries retry_delay w
      = (Inr None, w)"
    by (simp add: update_order_statuses_def validate_dataframe_def)
next
  assume col: "''HDRTAG2'' \<in> set (columns df)"
  let ?url = "''https://api.partner.market.yandex.ru/campaigns/'' @ campaign_id @ ''/orders/status-update''"
  note ex = extract_unique_orders_rows[OF col]
  obtain orders ids_sent where b: "build_order_payload parse
             (drop_duplicates_from (\<lambda>row. row_get row ''HDRTAG2'') [] (rows df))
             ''PROCESSING'' ''READY_TO_SHIP'' = (orders, ids_sent)"
    by (cases "build_order_payload parse
             (drop_duplicates_from (\<lambda>row. row_get row ''HDRTAG2'') [] (rows df))
             ''PROCESSING'' ''READY_TO_SHIP''")
  have ids: "map ou_id orders = ids_sent"
    using build_order_payload_ids[OF b] by simp
  obtain success w' where s:
    "send_status_update_request server orders campaign_id headers max_retries retry_delay w
       = (success, w')"
    by (cases "send_status_update_request server orders campaign_id headers max_retries retry_delay w")
  have empty: "orders = [] \<longrightarrow>
      update_order_statuses server parse df campaign_id headers max_retries retry_delay w
        = (Inr (Some []), w)"
    using col b by (simp add: update_order_statuses_def validate_dataframe_def ex)
  have upd: "update_order_statuses server parse df campaign_id headers max_retries retry_delay w
        = (case success of
             Inl e \<Rightarrow> Inl e
           | Inr s \<Rightarrow> Inr (if s = Some True then Some ids_sent else None), w')" if "orders \<noteq> []"
    using col b s that
    by (cases success) (simp_all add: update_order_statuses_def validate_dataframe_def ex)
  have ret: "\<exists>s. success = Inr s" if "0 \<le> retry_delay"
    using s send_status_loop_returns[OF that, of 1 server ?url orders max_retries w]
    by (auto simp: send_status_update_request_def)
  have sent: "(\<exists>n. requests w' = requests w @ replicate (Suc n) (?url, orders))
       \<and> server (length (requests w') - 1) = Status 200" if "success = Inr (Some True)"
    using s that send_status_loop_success[of server ?url orders max_retries retry_delay 1 w w']
    by (simp add: send_status_update_request_def)
  have nonempty: "orders \<noteq> [] \<longrightarrow>
      (\<exists>success w'.
         send_status_update_request server orders campaign_id headers max_retries retry_delay w
           = (success, w')
         \<and> update_order_statuses server parse df campaign_id headers max_retries retry_delay w
             = (case success of
                  Inl e \<Rightarrow> Inl e
                | Inr s \<Rightarrow> Inr (if s = Some True then Some ids_sent else None), w')
         \<and> (0 \<le> retry_delay \<longrightarrow> (\<exists>s. success = Inr s))
         \<and> (success = Inr (Some True) \<longrightarrow>
              (\<exists>n. requests w' = requests w @ replicate (Suc n) (?url, orders))
              \<and> server (length (requests w') - 1) = Status 200))"
  proof
    assume ne: "orders \<noteq> []"
    show "\<exists>success w'.
         send_status_update_request server orders campaign_id headers max_retries retry_delay w
           = (success, w')
         \<and> update_order_statuses server parse df campaign_id headers max_retries retry_delay w
             = (case success of
                  Inl e \<Rightarrow> Inl e
                | Inr s \<Rightarrow> Inr (if s = Some True then Some ids_sent else None), w')
         \<and> (0 \<le> retry_delay \<longrightarrow> (\<exists>s. success = Inr s))
         \<and> (success = Inr (Some True) \<longrightarrow>
              (\<exists>n. requests w' = requests w @ replicate (Suc n) (?url, orders))
              \<and> server (length (requests w') - 1) = Status 200)"
      using s upd[OF ne] ret sent
      by (intro exI[of _ success] exI[of _ w'] conjI impI) simp_all
  qed
  show "\<exists>orders ids_sent.
         build_order_payload parse
             (drop_duplicates_from (\<lambda>row. row_get row ''HDRTAG2'') [] (rows df))
             ''PROCESSING'' ''READY_TO_SHIP'' = (orders, ids_sent)
         \<and> map ou_id orders = ids_sent
         \<and> (orders = [] \<longrightarrow>
              update_order_statuses server parse df campaign_id headers max_retries retry_delay w
                = (Inr (Some []), w))
         \<and> (orders \<noteq> [] \<longrightarrow>
              (\<exists>success w'.
                 send_status_update_request server orders campaign_id headers max_retries retry_delay w
                   = (success, w')
                 \<and> update_order_statuses server parse df campaign_id headers max_retries retry_delay w
                     = (case success of
                          Inl e \<Rightarrow> Inl e
                        | Inr s \<Rightarrow> Inr (if s = Some True then Some ids_sent else None), w')
                 \<and> (0 \<le> retry_delay \<longrightarrow> (\<exists>s. success = Inr s))
                 \<and> (success = Inr (Some True) \<longrightarrow>
                      (\<exists>n. requests w' = requests w @ replicate (Suc n) (?url, orders))
                      \<and> server (length (requests w') - 1) = Status 200)))"
    by (rule exI[of _ orders], rule exI[of _ ids_sent], intro conjI)
       (rule b, rule ids, rule empty, rule nonempty)
qed

text \<open>
  Witness for C3: keys 1001, 1001, 1002 leave two rows, the first and the third.
\<close>

theorem C3_extract_unique_orders_witness:
  "''HDRTAG2'' \<in> set [''HDRTAG2'', ''QNT'']
   \<and> (\<exists>u. extract_unique_orders
             \<lparr>columns = [''HDRTAG2'', ''QNT''],
              rows = [[(''HDRTAG2'', CNum 1001), (''QNT'', CNum 1)],
                      [(''HDRTAG2'', CNum 1001), (''QNT'', CNum 2)],
                      [(''HDRTAG2'', CNum 1002), (''QNT'', CNum 3)]]\<rparr> = Some u
          \<and> rows u = [[(''HDRTAG2'', CNum 1001), (''QNT'', CNum 1)],
                       [(''HDRTAG2'', CNum 1002), (''QNT'', CNum 3)]])"
proof -
  let ?df = "\<lparr>columns = [''HDRTAG2'', ''QNT''],
              rows = [[(''HDRTAG2'', CNum 1001), (''QNT'', CNum 1)],
                      [(''HDRTAG2'', CNum 1001), (''QNT'', CNum 2)],
                      [(''HDRTAG2'', CNum 1002), (''QNT'', CNum 3)]]\<rparr>"
  have col: "''HDRTAG2'' \<in> set (columns ?df)" by simp
  from C3_extract_unique_orders[OF col] obtain u where
    u: "extract_unique_orders ?df = Some u"
    and r: "rows u = map (\<lambda>i. rows ?df ! i)
                  (filter (\<lambda>i. row_get (rows ?df ! i) ''HDRTAG2''
                                 \<notin> (\<lambda>row. row_get row ''HDRTAG2'') ` set (take i (rows ?df)))
                     [0..<length (rows ?df)])"
    by (elim exE conjE)
  have upt3: "[0..<length (rows ?df)] = [0, Suc 0, Suc (Suc 0)]"
    by (simp add: upt_rec)
  have "rows u = [[(''HDRTAG2'', CNum 1001), (''QNT'', CNum 1)],
                  [(''HDRTAG2'', CNum 1002), (''QNT'', CNum 3)]]"
    unfolding r upt3 by (simp add: row_get_def)
  with u show ?thesis by simp
qed


text \<open>
  Witness for C4: a table without HDRTAG2; a table with the keys 1001, 1001, the sentinel
  text and 1002, sent to a server that answers 200; and a table whose only key is the
  sentinel text, for which nothing is sent.
\<close>

theorem C4_update_order_statuses_witness:
  "''HDRTAG2'' \<notin> set [''HDRTAG1'', ''QNT'']
   \<and> update_order_statuses (\<lambda>k. Status 200) (\<lambda>s. None)
        \<lparr>columns = [''HDRTAG1'', ''QNT''], rows = [[(''HDRTAG1'', CStr ''d''), (''QNT'', CNum 1)]]\<rparr>
        ''77'' [] 3 3 []
      = (Inr None, [])
   \<and> ''HDRTAG2'' \<in> set [''HDRTAG2'', ''QNT'']
   \<and> update_order_statuses (\<lambda>k. Status 200) (\<lambda>s. None)
        \<lparr>columns = [''HDRTAG2'', ''QNT''],
         rows = [[(''HDRTAG2'', CNum 1001), (''QNT'', CNum 1)],
                 [(''HDRTAG2'', CNum 1001), (''QNT'', CNum 2)],
                 [(''HDRTAG2'', CStr net_dannyh), (''QNT'', CNum 5)],
                 [(''HDRTAG2'', CNum 1002), (''QNT'', CNum 3)]]\<rparr>
        ''77'' [] 3 3 []
      = (Inr (Some [1001, 1002]),
         [Request ''https://api.partner.market.yandex.ru/campaigns/77/orders/status-update''
            [\<lparr>ou_id = 1001, ou_status = ''PROCESSING'', ou_substatus = ''READY_TO_SHIP''\<rparr>,
             \<lparr>ou_id = 1002, ou_status = ''PROCESSING'', ou_substatus = ''READY_TO_SHIP''\<rparr>]])
   \<and> update_order_statuses (\<lambda>k. Status 200) (\<lambda>s. None)
        \<lparr>columns = [''HDRTAG2'', ''QNT''],
         rows = [[(''HDRTAG2'', CStr net_dannyh), (''QNT'', CNum 5)]]\<rparr>
        ''77'' [] 3 3 []
      = (Inr (Some []), [])"
proof -
  let ?w = "[] :: order_update list net"
  let ?srv = "\<lambda>k::nat. Status 200"
  let ?parse = "\<lambda>s::string. None :: int option"
  let ?d1 = "\<lparr>columns = [''HDRTAG1'', ''QNT''], rows = [[(''HDRTAG1'', CStr ''d''), (''QNT'', CNum 1)]]\<rparr>"
  let ?d2 = "\<lparr>columns = [''HDRTAG2'', ''QNT''],
         rows = [[(''HDRTAG2'', CNum 1001), (''QNT'', CNum 1)],
                 [(''HDRTAG2'', CNum 1001), (''QNT'', CNum 2)],
                 [(''HDRTAG2'', CStr net_dannyh), (''QNT'', CNum 5)],
                 [(''HDRTAG2'', CNum 1002), (''QNT'', CNum 3)]]\<rparr>"
  let ?d3 = "\<lparr>columns = [''HDRTAG2'', ''QNT''],
         rows = [[(''HDRTAG2'', CStr net_dannyh), (''QNT'', CNum 5)]]\<rparr>"
  let ?os = "[\<lparr>ou_id = 1001, ou_status = ''PROCESSING'', ou_substatus = ''READY_TO_SHIP''\<rparr>,
               \<lparr>ou_id = 1002, ou_status = ''PROCESSING'', ou_substatus = ''READY_TO_SHIP''\<rparr>]"
  let ?url = "''https://api.partner.market.yandex.ru/campaigns/77/orders/status-update''"
  have a: "update_order_statuses ?srv ?parse ?d1 ''77'' [] 3 3 ?w = (Inr None, ?w)"
    using C4_update_order_statuses[where df = ?d1 and server = ?srv and parse = ?parse
        and campaign_id = "''77''" and headers = "[]" and max_retries = 3 and retry_delay = 3
        and w = ?w, THEN conjunct1]
    by simp
  have col2: "''HDRTAG2'' \<in> set (columns ?d2)" by simp
  have col3: "''HDRTAG2'' \<in> set (columns ?d3)" by simp
  have b2: "build_order_payload ?parse
             (drop_duplicates_from (\<lambda>row. row_get row ''HDRTAG2'') [] (rows ?d2))
             ''PROCESSING'' ''READY_TO_SHIP'' = (?os, [1001, 1002])"
    by (simp add: row_get_def py_int_def)
  have b3: "build_order_payload ?parse
             (drop_duplicates_from (\<lambda>row. row_get row ''HDRTAG2'') [] (rows ?d3))
             ''PROCESSING'' ''READY_TO_SHIP'' = ([], [])"
    by (simp add: row_get_def py_int_def)
  have s2: "send_status_update_request ?srv ?os ''77'' [] 3 3 ?w
      = (Inr (Some True), [Request ?url ?os])"
    unfolding send_status_update_request_def
    by (subst send_status_loop_ok) simp_all
  have b: "update_order_statuses ?srv ?parse ?d2 ''77'' [] 3 3 ?w
      = (Inr (Some [1001, 1002]), [Request ?url ?os])"
    using C4_update_order_statuses[where df = ?d2 and server = ?srv and parse = ?parse
        and campaign_id = "''77''" and headers = "[]" and max_retries = 3 and retry_delay = 3
        and w = ?w, THEN conjunct2, THEN mp, OF col2] b2 s2
    by auto
  have c: "update_order_statuses ?srv ?parse ?d3 ''77'' [] 3 3 ?w = (Inr (Some []), ?w)"
    using C4_update_order_statuses[where df = ?d3 and server = ?srv and parse = ?parse
        and campaign_id = "''77''" and headers = "[]" and max_retries = 3 and retry_delay = 3
        and w = ?w, THEN conjunct2, THEN mp, OF col3] b3
    by auto
  from a b c show ?thesis by simp
qed

section \<open>Theorems: a confirmations run without new files\<close>

lemma process_files_nothing_new:
  "\<forall>entry\<in>set entries. \<not> endswith (fst (snd entry)) ''.xls'' \<or> fst (snd entry) \<in> set archive
   \<Longrightarrow> process_files entries archive = ([], archive, entries)"
proof (induction entries)
  case Nil
  then show ?case by simp
next
  case (Cons e es)
  obtain dirpath fname file_data where e: "e = (dirpath, fname, file_data)"
    by (cases e)
  from Cons.prems have rest: "process_files es archive = ([], archive, es)"
    by (intro Cons.IH) simp
  from Cons.prems e have "\<not> endswith fname ''.xls'' \<or> fname \<in> set archive" by simp
  then show ?case
    unfolding e by (auto simp: rest)
qed

lemma save_orders_to_excel_no_columns:
  "save_orders_to_excel writer_exit write_workbook now \<lparr>columns = [], rows = []\<rparr> w = (Inl (writer_exit KeyError), w)"
  by (simp add: save_orders_to_excel_def)

text \<open>
  Claim C10. Suppose that after the download no file under the inbox is new: each is not
  an \<open>.xls\<close> file or has its name in the processed directory already. Then
  \<open>process_confirmation_files\<close> returns the table without columns and rows and changes
  nothing; in \<open>save_orders_to_excel\<close> the first pivot raises KeyError on that table, so
  the function raises (what leaves the writer's block for that KeyError) and completes no
  workbook; and \<open>main\<close> stops with that exception in the world as the download left it:
  no recap is recorded, no label job is requested and no status update request is issued.
\<close>

theorem C10_empty_run_aborts:
  assumes "\<forall>entry\<in>set (inbox (download w0)).
             \<not> endswith (fst (snd entry)) ''.xls''
             \<or> fst (snd entry) \<in> set (processed (download w0))"
  shows "process_confirmation_files (download w0) = (Inr \<lparr>columns = [], rows = []\<rparr>, download w0)
     \<and> save_orders_to_excel writer_exit write_workbook now \<lparr>columns = [], rows = []\<rparr> (download w0)
         = (Inl (writer_exit KeyError), download w0)
     \<and> confirmations_main cfg download writer_exit write_workbook now format_report_sheets server
           parse w0
         = (Some (writer_exit KeyError), download w0)"
proof -
  have p: "process_confirmation_files (download w0)
      = (Inr \<lparr>columns = [], rows = []\<rparr>, download w0)"
    using process_files_nothing_new[OF assms]
    by (simp add: process_confirmation_files_def)
  have s: "save_orders_to_excel writer_exit write_workbook now \<lparr>columns = [], rows = []\<rparr> (download w0)
         = (Inl (writer_exit KeyError), download w0)"
    by (rule save_orders_to_excel_no_columns)
  have m: "confirmations_main cfg download writer_exit write_workbook now format_report_sheets server
           parse w0
         = (Some (writer_exit KeyError), download w0)"
    by (simp add: confirmations_main_def p s)
  from p s m show ?thesis by (intro conjI)
qed

text \<open>
  Witness for C10: an inbox with one confirmation that is already in the processed
  directory and one text file; closing the writer without a sheet raises IndexError.
\<close>

theorem C10_empty_run_aborts_witness:
  "confirmations_main \<lparr>CAMPAIGN_ID = ''77'', HEADERS = [], RECAPS_DIR = ''recaps''\<rparr> id
        (\<lambda>e. IndexError) (\<lambda>t. None) ''010125-101500''
        (\<lambda>p. None) (\<lambda>k. Status 200) (\<lambda>s. None)
        \<lparr>inbox = [(''in'', ''1001.xls'', Some \<lparr>columns = [''HDRTAG2''], rows = [[(''HDRTAG2'', CNum 1001)]]\<rparr>),
                  (''in'', ''notes.txt'', None)],
         processed = [''1001.xls''],
         http = [],
         label_requests = [], recaps = [], printed = []\<rparr>
     = (Some IndexError,
        \<lparr>inbox = [(''in'', ''1001.xls'', Some \<lparr>columns = [''HDRTAG2''], rows = [[(''HDRTAG2'', CNum 1001)]]\<rparr>),
                  (''in'', ''notes.txt'', None)],
         processed = [''1001.xls''],
         http = [],
         label_requests = [], recaps = [], printed = []\<rparr>)"
proof -
  let ?w = "\<lparr>inbox = [(''in'', ''1001.xls'', Some \<lparr>columns = [''HDRTAG2''], rows = [[(''HDRTAG2'', CNum 1001)]]\<rparr>),
                  (''in'', ''notes.txt'', None)],
         processed = [''1001.xls''],
         http = [],
         label_requests = [], recaps = [], printed = []\<rparr>"
  have h: "\<forall>entry\<in>set (inbox (id ?w)).
             \<not> endswith (fst (snd entry)) ''.xls'' \<or> fst (snd entry) \<in> set (processed (id ?w))"
    by (simp add: endswith_def)
  from C10_empty_run_aborts[of id ?w, OF h, THEN conjunct2, THEN conjunct2]
  show ?thesis by simp
qed

section \<open>Theorems: export of orders to table files\<close>

lemma append_items_files:
  "path \<noteq> filename \<Longrightarrow>
   files (snd (append_items L cfg oid od sd filename its w)) path = files w path"
proof (induction its arbitrary: w)
  case Nil
  then show ?case by simp
next
  case (Cons item rest)
  show ?case
  proof (cases "dbf_row_of L cfg oid od sd item")
    case (Inl e)
    then show ?thesis by simp
  next
    case (Inr r)
    show ?thesis
    proof (cases "lib_dbf_accepts L r")
      case True
      with Inr Cons.prems show ?thesis
        by (simp add: Cons.IH[OF Cons.prems])
    next
      case False
      with Inr show ?thesis by simp
    qed
  qed
qed

lemma append_items_keeps_file:
  "files w filename \<noteq> None \<Longrightarrow>
   files (snd (append_items L cfg oid od sd filename its w)) filename \<noteq> None"
proof (induction its arbitrary: w)
  case Nil
  then show ?case by simp
next
  case (Cons item rest)
  show ?case
  proof (cases "dbf_row_of L cfg oid od sd item")
    case (Inl e)
    with Cons.prems show ?thesis by simp
  next
    case (Inr r)
    show ?thesis
    proof (cases "lib_dbf_accepts L r")
      case True
      have "files (snd (append_items L cfg oid od sd filename rest
                 (w\<lparr>files := (files w)(filename \<mapsto>
                       (case files w filename of None \<Rightarrow> [] | Some rs \<Rightarrow> rs) @ [r])\<rparr>))) filename \<noteq> None"
        by (rule Cons.IH) simp
      with Inr True show ?thesis by simp
    next
      case False
      with Inr Cons.prems show ?thesis by simp
    qed
  qed
qed

lemma append_items_uploads:
  "uploads (snd (append_items L cfg oid od sd filename its w)) = uploads w"
proof (induction its arbitrary: w)
  case Nil
  then show ?case by simp
next
  case (Cons item rest)
  show ?case
    by (cases "dbf_row_of L cfg oid od sd item"; cases "lib_dbf_accepts L (projr (dbf_row_of L cfg oid od sd item))")
       (simp_all add: Cons.IH)
qed

lemma order_fields_id:
  "order_fields order = Inr (oid, ds, sh, its) \<Longrightarrow> py_get order ''id'' JNull = Inr oid"
  by (auto simp: order_fields_def bind_err_def split: sum.splits)

lemma export_order_skips_existing:
  assumes "py_get order ''id'' JNull = Inr oid"
    and "files w (path_join output_dir (lib_str L oid @ ''.dbf'')) \<noteq> None"
  shows "snd (export_order L cfg output_dir order w) = w"
proof (cases "order_fields order")
  case (Inl e)
  then show ?thesis by (simp add: export_order_def)
next
  case (Inr t)
  obtain oid' ds sh its where t: "t = (oid', ds, sh, its)" by (cases t)
  from Inr t assms(1) have "oid' = oid" using order_fields_id[of order oid' ds sh its] by simp
  with Inr t assms(2) show ?thesis
    by (simp add: export_order_def Let_def)
qed

lemma export_order_files:
  assumes "files w path \<noteq> None"
  shows "files (snd (export_order L cfg output_dir order w)) path = files w path"
proof (cases "order_fields order")
  case (Inl e)
  then show ?thesis by (simp add: export_order_def)
next
  case (Inr t)
  obtain oid ds sh its where t: "t = (oid, ds, sh, its)" by (cases t)
  let ?fn = "path_join output_dir (lib_str L oid @ ''.dbf'')"
  let ?w1 = "w\<lparr>files := (files w)(?fn \<mapsto> [])\<rparr>"
  show ?thesis
  proof (cases "truthy its \<and> files w ?fn = None")
    case False
    with Inr t show ?thesis by (auto simp: export_order_def Let_def)
  next
    case True
    with assms have ne: "path \<noteq> ?fn" by auto
    show ?thesis
    proof (cases "py_iter its")
      case (Inl e)
      with Inr t True ne show ?thesis by (simp add: export_order_def Let_def)
    next
      case items: (Inr item_list)
      let ?od = "parse_date L ''%d-%m-%Y %H:%M:%S'' ds"
      let ?sd = "shipment_date_of L sh"
      obtain r w2 where a: "append_items L cfg oid ?od ?sd ?fn item_list ?w1 = (r, w2)"
        by (cases "append_items L cfg oid ?od ?sd ?fn item_list ?w1")
      have "files w2 path = files ?w1 path"
        using append_items_files[OF ne, of L cfg oid ?od ?sd item_list ?w1] a by simp
      then have "files w2 path = files w path" using ne by simp
      with Inr t True items a show ?thesis
        by (cases r) (simp_all add: export_order_def Let_def)
    qed
  qed
qed

lemma export_order_again:
  assumes "export_order L cfg output_dir order w = (Inr (), w1)"
    and "dom (files w1) \<subseteq> dom (files w2)"
  shows "export_order L cfg output_dir order w2 = (Inr (), w2)"
proof (cases "order_fields order")
  case (Inl e)
  with assms(1) show ?thesis by (simp add: export_order_def)
next
  case (Inr t)
  obtain oid ds sh its where t: "t = (oid, ds, sh, its)" by (cases t)
  let ?fn = "path_join output_dir (lib_str L oid @ ''.dbf'')"
  let ?w1 = "w\<lparr>files := (files w)(?fn \<mapsto> [])\<rparr>"
  show ?thesis
  proof (cases "truthy its")
    case False
    with Inr t show ?thesis by (simp add: export_order_def)
  next
    case True
    have "files w1 ?fn \<noteq> None"
    proof (cases "files w ?fn = None")
      case False
      with Inr t True assms(1) have "w1 = w" by (auto simp: export_order_def Let_def)
      with False show ?thesis by simp
    next
      case none: True
      show ?thesis
      proof (cases "py_iter its")
        case (Inl e)
        with Inr t True none assms(1) show ?thesis by (simp add: export_order_def Let_def)
      next
        case items: (Inr item_list)
        let ?od = "parse_date L ''%d-%m-%Y %H:%M:%S'' ds"
        let ?sd = "shipment_date_of L sh"
        obtain r wa where a: "append_items L cfg oid ?od ?sd ?fn item_list ?w1 = (r, wa)"
          by (cases "append_items L cfg oid ?od ?sd ?fn item_list ?w1")
        have "files ?w1 ?fn \<noteq> None" by simp
        then have "files wa ?fn \<noteq> None"
          using append_items_keeps_file[of ?w1 ?fn L cfg oid ?od ?sd item_list] a by simp
        moreover from Inr t True none items a assms(1)
        have "w1 = wa\<lparr>uploads := uploads wa @ [?fn]\<rparr>"
          by (cases r) (simp_all add: export_order_def Let_def)
        ultimately show ?thesis by simp
      qed
    qed
    with assms(2) have "files w2 ?fn \<noteq> None" by (auto simp: dom_def)
    with Inr t True show ?thesis by (simp add: export_order_def Let_def)
  qed
qed

lemma export_order_dom:
  "dom (files w) \<subseteq> dom (files (snd (export_order L cfg output_dir order w)))"
  using export_order_files[of w _ L cfg output_dir order] by (auto simp: dom_def)

lemma export_orders_files:
  "files w path \<noteq> None \<Longrightarrow>
   files (snd (export_orders_to_dbf_files L cfg orders output_dir w)) path = files w path"
proof (induction orders arbitrary: w)
  case Nil
  then show ?case by simp
next
  case (Cons order orders)
  obtain r w1 where e: "export_order L cfg output_dir order w = (r, w1)"
    by (cases "export_order L cfg output_dir order w")
  have f1: "files w1 path = files w path"
    using export_order_files[OF Cons.prems, of L cfg output_dir order] e by simp
  show ?case
  proof (cases r)
    case (Inl err)
    with e f1 show ?thesis by simp
  next
    case (Inr u)
    from f1 Cons.prems have "files w1 path \<noteq> None" by simp
    from Cons.IH[OF this] f1 e Inr show ?thesis by simp
  qed
qed

lemma export_orders_dom:
  "dom (files w) \<subseteq> dom (files (snd (export_orders_to_dbf_files L cfg orders output_dir w)))"
  using export_orders_files[of w _ L cfg orders output_dir] by (auto simp: dom_def)

lemma export_orders_again:
  "export_orders_to_dbf_files L cfg orders output_dir w = (Inr (), w_end) \<Longrightarrow>
   dom (files w_end) \<subseteq> dom (files w2) \<Longrightarrow>
   export_orders_to_dbf_files L cfg orders output_dir w2 = (Inr (), w2)"
proof (induction orders arbitrary: w)
  case Nil
  then show ?case by simp
next
  case (Cons order orders)
  obtain r w1 where e: "export_order L cfg output_dir order w = (r, w1)"
    by (cases "export_order L cfg output_dir order w")
  from Cons.prems(1) e have r: "r = Inr ()" by (cases r) simp_all
  from Cons.prems(1) e r have rest: "export_orders_to_dbf_files L cfg orders output_dir w1 = (Inr (), w_end)"
    by simp
  have "dom (files w1) \<subseteq> dom (files w_end)"
    using export_orders_dom[of w1 L cfg orders output_dir] rest by simp
  with Cons.prems(2) have "dom (files w1) \<subseteq> dom (files w2)" by blast
  with e r have first: "export_order L cfg output_dir order w2 = (Inr (), w2)"
    by (intro export_order_again[of L cfg output_dir order w w1]) simp_all
  from Cons.IH[OF rest Cons.prems(2)] first show ?case by simp
qed

text \<open>
  Claim C6 fails on the code. For an order whose delivery has an empty shipment list, and
  for an order without a delivery, \<open>extract_order_data\<close> raises IndexError: the source
  indexes the shipment list with \<open>[0]\<close> without a guard. With a shipment present it
  returns the record with the first shipment's date. The export of the same file guards
  the same read (\<open>if shipment_data else None\<close>) and gives no date for an empty list.
\<close>

theorem C6_extract_order_data_no_shipments:
  "extract_order_data
     [JObj [(''id'', JNum 1001), (''status'', JStr ''PROCESSING''), (''substatus'', JStr ''STARTED''),
            (''creationDate'', JStr ''05-01-2025 10:00:00''),
            (''delivery'', JObj [(''shipments'', JArr [])])]]
     = Inl IndexError
   \<and> extract_order_data [JObj [(''id'', JNum 1001), (''status'', JStr ''PROCESSING'')]]
     = Inl IndexError
   \<and> extract_order_data
     [JObj [(''id'', JNum 1001), (''status'', JStr ''PROCESSING''), (''substatus'', JStr ''STARTED''),
            (''creationDate'', JStr ''05-01-2025 10:00:00''),
            (''delivery'', JObj [(''shipments'', JArr [JObj [(''shipmentDate'', JStr ''07-01-2025'')]])])]]
     = Inr [\<lparr>order_id = JNum 1001, status = JStr ''PROCESSING'', substatus = JStr ''STARTED'',
             creationDate = JStr ''05-01-2025 10:00:00'', shipmentDate = JStr ''07-01-2025''\<rparr>]
   \<and> shipment_date_of L (JArr []) = None"
  by (simp add: order_summary_of_def bind_err_def py_get_def py_first_def shipment_date_of_def
      truthy_def)

text \<open>
  Claim C7. If the table file named after the order's id exists, \<open>export_order\<close> leaves
  the world as it is: no file is created or changed and nothing is uploaded; and when the
  order's fields can be read, the order is skipped without an error. A whole export never
  changes a file that existed before it, so a second run leaves the files of the first
  unchanged; and after a run that completed, a second run on the same orders changes
  nothing at all.
\<close>

theorem C7_export_idempotent:
  "(py_get order ''id'' JNull = Inr oid
      \<and> files w (path_join output_dir (lib_str L oid @ ''.dbf'')) \<noteq> None \<longrightarrow>
      snd (export_order L cfg output_dir order w) = w)
   \<and> (order_fields order = Inr (oid, order_date_str, shipment_data, its)
      \<and> files w (path_join output_dir (lib_str L oid @ ''.dbf'')) \<noteq> None \<longrightarrow>
      export_order L cfg output_dir order w = (Inr (), w))
   \<and> (files w path \<noteq> None \<longrightarrow>
      files (snd (export_orders_to_dbf_files L cfg orders output_dir w)) path = files w path)
   \<and> (export_orders_to_dbf_files L cfg orders output_dir w = (Inr (), w1) \<longrightarrow>
      export_orders_to_dbf_files L cfg orders output_dir w1 = (Inr (), w1))"
proof (intro conjI impI)
  assume "py_get order ''id'' JNull = Inr oid
      \<and> files w (path_join output_dir (lib_str L oid @ ''.dbf'')) \<noteq> None"
  then show "snd (export_order L cfg output_dir order w) = w"
    using export_order_skips_existing[of order oid w output_dir L cfg] by blast
next
  assume "order_fields order = Inr (oid, order_date_str, shipment_data, its)
      \<and> files w (path_join output_dir (lib_str L oid @ ''.dbf'')) \<noteq> None"
  then show "export_order L cfg output_dir order w = (Inr (), w)"
    by (simp add: export_order_def Let_def)
next
  assume "files w path \<noteq> None"
  then show "files (snd (export_orders_to_dbf_files L cfg orders output_dir w)) path = files w path"
    by (rule export_orders_files)
next
  assume "export_orders_to_dbf_files L cfg orders output_dir w = (Inr (), w1)"
  then show "export_orders_to_dbf_files L cfg orders output_dir w1 = (Inr (), w1)"
    by (rule export_orders_again) simp
qed

text \<open>
  Witness for C7: the same order twice in one run, then the run repeated. The first run
  writes and uploads one file; the second occurrence and the second run are skipped.
\<close>

theorem C7_export_idempotent_witness:
  "export_orders_to_dbf_files
      \<lparr>lib_str = (\<lambda>v. if v = JNum 1001 then ''1001'' else ''None''),
       lib_str_to_float = (\<lambda>s. None), lib_str_to_int = (\<lambda>s. None),
       lib_strptime = (\<lambda>fmt s. None), lib_dbf_accepts = (\<lambda>r. True)\<rparr>
      \<lparr>CUSTOMER_ID_IN_SUPPLIER_CRM = ''C1'', DIVISION_ID = ''F1''\<rparr>
      [JObj [(''id'', JNum 1001),
             (''items'', JArr [JObj [(''offerId'', JStr ''sku-1''), (''offerName'', JStr ''cream''),
                                      (''price'', JNum 250), (''count'', JNum 2)]])],
       JObj [(''id'', JNum 1001),
             (''items'', JArr [JObj [(''offerId'', JStr ''sku-1''), (''offerName'', JStr ''cream''),
                                      (''price'', JNum 250), (''count'', JNum 2)]])]]
      ''dbf_orders'' \<lparr>files = (\<lambda>p. None), uploads = []\<rparr>
     = (Inr (),
        \<lparr>files = (\<lambda>p. None)(''dbf_orders/1001.dbf'' \<mapsto>
            [\<lparr>f_offer_id = JStr ''sku-1'', f_name = JStr ''cream'', f_price = 250, f_qty = 2,
              f_post_num = ''1001'', f_ord_date = None, f_ship_date = None,
              f_comment = ''1001'' @ zakaz_yandex, f_cust_id = ''C1'', f_div_id = ''F1''\<rparr>]),
         uploads = [''dbf_orders/1001.dbf'']\<rparr>)
   \<and> export_orders_to_dbf_files
      \<lparr>lib_str = (\<lambda>v. if v = JNum 1001 then ''1001'' else ''None''),
       lib_str_to_float = (\<lambda>s. None), lib_str_to_int = (\<lambda>s. None),
       lib_strptime = (\<lambda>fmt s. None), lib_dbf_accepts = (\<lambda>r. True)\<rparr>
      \<lparr>CUSTOMER_ID_IN_SUPPLIER_CRM = ''C1'', DIVISION_ID = ''F1''\<rparr>
      [JObj [(''id'', JNum 1001),
             (''items'', JArr [JObj [(''offerId'', JStr ''sku-1''), (''offerName'', JStr ''cream''),
                                      (''price'', JNum 250), (''count'', JNum 2)]])],
       JObj [(''id'', JNum 1001),
             (''items'', JArr [JObj [(''offerId'', JStr ''sku-1''), (''offerName'', JStr ''cream''),
                                      (''price'', JNum 250), (''count'', JNum 2)]])]]
      ''dbf_orders''
      \<lparr>files = (\<lambda>p. None)(''dbf_orders/1001.dbf'' \<mapsto>
            [\<lparr>f_offer_id = JStr ''sku-1'', f_name = JStr ''cream'', f_price = 250, f_qty = 2,
              f_post_num = ''1001'', f_ord_date = None, f_ship_date = None,
              f_comment = ''1001'' @ zakaz_yandex, f_cust_id = ''C1'', f_div_id = ''F1''\<rparr>]),
         uploads = [''dbf_orders/1001.dbf'']\<rparr>
     = (Inr (),
        \<lparr>files = (\<lambda>p. None)(''dbf_orders/1001.dbf'' \<mapsto>
            [\<lparr>f_offer_id = JStr ''sku-1'', f_name = JStr ''cream'', f_price = 250, f_qty = 2,
              f_post_num = ''1001'', f_ord_date = None, f_ship_date = None,
              f_comment = ''1001'' @ zakaz_yandex, f_cust_id = ''C1'', f_div_id = ''F1''\<rparr>]),
         uploads = [''dbf_orders/1001.dbf'']\<rparr>)"
proof -
  let ?L = "\<lparr>lib_str = (\<lambda>v. if v = JNum 1001 then ''1001'' else ''None''),
       lib_str_to_float = (\<lambda>s. None), lib_str_to_int = (\<lambda>s. None),
       lib_strptime = (\<lambda>fmt s. None), lib_dbf_accepts = (\<lambda>r::dbf_row. True)\<rparr>"
  let ?cfg = "\<lparr>CUSTOMER_ID_IN_SUPPLIER_CRM = ''C1'', DIVISION_ID = ''F1''\<rparr>"
  let ?o = "JObj [(''id'', JNum 1001),
             (''items'', JArr [JObj [(''offerId'', JStr ''sku-1''), (''offerName'', JStr ''cream''),
                                      (''price'', JNum 250), (''count'', JNum 2)]])]"
  let ?w0 = "\<lparr>files = (\<lambda>p. None), uploads = []\<rparr>"
  let ?w1 = "\<lparr>files = (\<lambda>p. None)(''dbf_orders/1001.dbf'' \<mapsto>
            [\<lparr>f_offer_id = JStr ''sku-1'', f_name = JStr ''cream'', f_price = 250, f_qty = 2,
              f_post_num = ''1001'', f_ord_date = None, f_ship_date = None,
              f_comment = ''1001'' @ zakaz_yandex, f_cust_id = ''C1'', f_div_id = ''F1''\<rparr>]),
         uploads = [''dbf_orders/1001.dbf'']\<rparr>"
  have first: "export_orders_to_dbf_files ?L ?cfg [?o, ?o] ''dbf_orders'' ?w0 = (Inr (), ?w1)"
    by (simp add: export_order_def order_fields_def bind_err_def py_get_def truthy_def
        path_join_def py_iter_def dbf_row_of_def py_float_def py_int_json_def parse_date_def
        shipment_date_of_def Let_def)
  from C7_export_idempotent[where L = ?L and cfg = ?cfg and orders = "[?o, ?o]"
      and output_dir = "''dbf_orders''" and w = ?w0 and ?w1.0 = ?w1,
      THEN conjunct2, THEN conjunct2, THEN conjunct2, THEN mp, OF first]
  have second: "export_orders_to_dbf_files ?L ?cfg [?o, ?o] ''dbf_orders'' ?w1 = (Inr (), ?w1)" .
  from first second show ?thesis by (intro conjI)
qed

end
